theory Spec2Isabelle
  imports Main "HOL-Library.AList" "HOL-Library.Multiset"
begin

section \<open>The cluster controller of eggo (eggops): data model\<close>

text \<open>
  The development embeds the file of package \<open>controllers\<close> that holds
  \<open>ClusterReconciler\<close> (Reconcile, reconcileDelete, prepareDeleteClusterJob,
  filterMachines, prepareMachineBinding, prepareSecret, preparePVCRef, prepareEggoConfig,
  prepareCreateClusterJob, jobIsFinished, checkAndLogClusterJob, updateMachineBindingStatus,
  reconcileCreate, reconcile).

  Conventions.
  \<^item> A Go \<open>error\<close> is a value of type \<open>error\<close>; \<open>nil\<close> is \<open>None\<close> in an
    \<open>error option\<close>, and a call returning \<open>(x, err)\<close> is a sum with \<open>Inl\<close> the error.
  \<^item> The Kubernetes client embedded in the reconciler is an explicit store that every
    function takes and returns. Every mutating request (Create, Update, Status().Update,
    Delete) is appended to the field \<open>calls\<close>, whether it succeeds or not.
  \<^item> A request fails with \<open>StoreError\<close> where the predicate \<open>fault\<close> of the store says
    so; a Get or Delete of an absent object fails with \<open>NotFound\<close>.
  \<^item> Objects are identified by (namespace, name), an \<open>ObjectReference\<close> keeps these two.
  \<^item> Durations are nanoseconds (\<open>time.Duration\<close>), times are natural numbers.
  \<^item> Logging is not modelled.
  \<^item> Dereferencing a nil reference is the error \<open>Panic\<close>, which no caller handles:
    it travels up to Reconcile, whose deferred function still runs.
\<close>

type_synonym NamespacedName = "string \<times> string"

datatype error = NotFound | StoreError | Errorf string | Panic

datatype kind = KCluster | KMachine | KMachineBinding | KSecret | KPersistentVolumeClaim
  | KConfigMap | KJob

datatype request =
    ReqGet kind NamespacedName
  | ReqList kind string
  | ReqCreate kind NamespacedName
  | ReqUpdate kind NamespacedName
  | ReqStatusUpdate kind NamespacedName
  | ReqDelete kind NamespacedName
  | ReqGetReference kind NamespacedName
  | ReqConvert NamespacedName

text \<open>
  Modelled from the spec: the usage constants of the API package, one per role usage
  (master, worker, coordination-store, load-balancer).
\<close>

datatype usage = UsageMaster | UsageWorker | UsageEtcd | UsageLoadbalance

record Machine =
  m_namespace :: string
  m_name :: string
  m_uid :: string
  m_labels :: "(string \<times> string) list"

record MachineCondition =
  UsagesStatus :: usage
  Message :: string

record MachineBinding =
  mb_namespace :: string
  mb_name :: string
  mb_labels :: "(string \<times> string) list"
  Usages :: "(string \<times> usage) list"
  Conditions :: "(string \<times> MachineCondition) list"

datatype SecretType = SecretTypeSSHAuth | SecretTypeBasicAuth | SecretTypeOther string

record Secret =
  s_namespace :: string
  s_name :: string
  s_type :: SecretType
  s_data :: "(string \<times> string) list"

datatype ClaimPhase = ClaimPending | ClaimBound | ClaimLost

record PersistentVolumeClaim =
  pvc_namespace :: string
  pvc_name :: string
  pvc_phase :: ClaimPhase

datatype JobConditionType = JobComplete | JobFailed | JobSuspended | JobOtherType string

datatype ConditionStatus = ConditionTrue | ConditionFalse | ConditionUnknown

record JobCondition =
  c_type :: JobConditionType
  c_status :: ConditionStatus
  c_reason :: string

text \<open>
  A Job: its metadata, the conditions of its status, and what \<open>createEggoJobConfig\<close> and
  \<open>addPrivateKeySecret\<close> put into its pod template.
\<close>

record Job =
  j_namespace :: string
  j_name :: string
  j_creationTimestamp :: nat
  j_deletionTimestamp :: "nat option"
  j_conditions :: "JobCondition list"
  j_containerName :: string
  j_image :: string
  j_command :: "string list"
  j_hostNetwork :: bool
  j_volumeMounts :: "(string \<times> string \<times> bool) list"
  j_configMapVolume :: string
  j_pvcVolume :: string
  j_secretVolume :: "string option"
  j_restartPolicy :: string

record RequireMachineConfig =
  Number :: int
  Features :: "(string \<times> string) list"

record ClusterSpec =
  MasterRequire :: RequireMachineConfig
  WorkerRequire :: RequireMachineConfig
  EtcdRequire :: RequireMachineConfig
  LoadbalanceRequires :: RequireMachineConfig
  MachineLoginSecret :: NamespacedName
  PackagePersistentVolumeClaim :: NamespacedName

record JobHistory =
  h_Name :: string
  h_StartTime :: nat
  h_FinishTime :: "nat option"
  h_Message :: string

record ClusterStatus =
  MachineBindingRef :: "NamespacedName option"
  MachineLoginSecretRef :: "NamespacedName option"
  PackagePersistentVolumeClaimRef :: "NamespacedName option"
  ConfigRef :: "NamespacedName option"
  JobRef :: "NamespacedName option"
  HasCluster :: bool
  Deleted :: bool
  st_Message :: string
  JobHistorys :: "JobHistory list"

record Cluster =
  c_namespace :: string
  c_name :: string
  DeletionTimestamp :: "nat option"
  Finalizers :: "string list"
  Spec :: ClusterSpec
  Status :: ClusterStatus

text \<open>
  The rendered configuration kept in the ConfigMap. The renderer
  \<open>ConvertClusterToEggoConfig\<close> is outside the embedded file; its output is kept as the
  triple of its inputs.
\<close>

datatype EggoConfig = EggoConfig Cluster MachineBinding Secret

record ConfigMap =
  cm_namespace :: string
  cm_name :: string
  cm_binaryData :: "(string \<times> EggoConfig) list"

datatype call =
    CreateMachineBinding MachineBinding
  | CreateConfigMap ConfigMap
  | CreateJob Job
  | DeleteJob NamespacedName "int option"
  | DeleteMachineBinding NamespacedName
  | DeleteConfigMap NamespacedName
  | UpdateMachineBinding MachineBinding
  | UpdateCluster Cluster
  | UpdateClusterStatus Cluster

record ClusterReconciler =
  machines :: "Machine list"
  machinebindings :: "MachineBinding list"
  secrets :: "Secret list"
  pvcs :: "PersistentVolumeClaim list"
  configmaps :: "ConfigMap list"
  jobs :: "Job list"
  clusters :: "Cluster list"
  calls :: "call list"
  fault :: "request \<Rightarrow> bool"

record Result =
  Requeue :: bool
  RequeueAfter :: int

definition Result0 :: Result where
  "Result0 = \<lparr>Requeue = False, RequeueAfter = 0\<rparr>"

definition Second :: int where
  "Second = 1000000000"

definition ClusterFinalizerName :: string where
  "ClusterFinalizerName = ''cluster.eggo.isula.org/finalizer''"

text \<open>\<open>MachineBindingFormat = "machinebind-%s"\<close>\<close>

definition MachineBindingFormat :: "string \<Rightarrow> string" where
  "MachineBindingFormat n = ''machinebind-'' @ n"

text \<open>
  Modelled from the spec: the constants of the API package \<open>eggov1\<close> (namespace,
  name formats, mount paths, image version) are not among the sources and the spec does
  not fix their values. The values below stand for them; no general statement depends on
  them.
\<close>

definition EggoNamespaceName :: string where
  "EggoNamespaceName = ''eggo-system''"

definition ClusterConfigMapNameFormat :: "string \<Rightarrow> string \<Rightarrow> string" where
  "ClusterConfigMapNameFormat n s = ''eggo-cluster-'' @ n @ ''-'' @ s"

definition ClusterConfigMapBinaryConfKey :: string where
  "ClusterConfigMapBinaryConfKey = ''eggo.conf''"

definition EggoConfigVolumeFormat :: "string \<Rightarrow> string" where
  "EggoConfigVolumeFormat n = ''/eggo/'' @ n @ ''/config''"

definition PackageVolumeFormat :: "string \<Rightarrow> string" where
  "PackageVolumeFormat n = ''/eggo/'' @ n @ ''/package''"

definition PrivateKeyVolumeFormat :: "string \<Rightarrow> string" where
  "PrivateKeyVolumeFormat n = ''/eggo/'' @ n @ ''/privatekey''"

definition ImageVersion :: string where
  "ImageVersion = ''latest''"

definition SSHAuthPrivateKey :: string where
  "SSHAuthPrivateKey = ''ssh-privatekey''"

definition BasicAuthUsernameKey :: string where
  "BasicAuthUsernameKey = ''username''"

definition BasicAuthPasswordKey :: string where
  "BasicAuthPasswordKey = ''password''"

section \<open>The store behind the client\<close>

text \<open>\<open>client.IgnoreNotFound\<close>\<close>

definition IgnoreNotFound :: "error \<Rightarrow> error option" where
  "IgnoreNotFound e = (if e = NotFound then None else Some e)"

definition lookupObj :: "('a \<Rightarrow> NamespacedName) \<Rightarrow> 'a list \<Rightarrow> NamespacedName \<Rightarrow> 'a option" where
  "lookupObj key xs k = find (\<lambda>x. key x = k) xs"

definition getObj :: "ClusterReconciler \<Rightarrow> kind \<Rightarrow> ('a \<Rightarrow> NamespacedName) \<Rightarrow> 'a list
    \<Rightarrow> NamespacedName \<Rightarrow> error + 'a" where
  "getObj r kd key xs k =
     (if fault r (ReqGet kd k) then Inl StoreError
      else case lookupObj key xs k of None \<Rightarrow> Inl NotFound | Some x \<Rightarrow> Inr x)"

definition mKey :: "Machine \<Rightarrow> NamespacedName" where
  "mKey m = (m_namespace m, m_name m)"

definition mbKey :: "MachineBinding \<Rightarrow> NamespacedName" where
  "mbKey mb = (mb_namespace mb, mb_name mb)"

definition sKey :: "Secret \<Rightarrow> NamespacedName" where
  "sKey s = (s_namespace s, s_name s)"

definition pvcKey :: "PersistentVolumeClaim \<Rightarrow> NamespacedName" where
  "pvcKey p = (pvc_namespace p, pvc_name p)"

definition cmKey :: "ConfigMap \<Rightarrow> NamespacedName" where
  "cmKey c = (cm_namespace c, cm_name c)"

definition jKey :: "Job \<Rightarrow> NamespacedName" where
  "jKey j = (j_namespace j, j_name j)"

definition cKey :: "Cluster \<Rightarrow> NamespacedName" where
  "cKey c = (c_namespace c, c_name c)"

definition GetCluster :: "ClusterReconciler \<Rightarrow> NamespacedName \<Rightarrow> error + Cluster" where
  "GetCluster r k = getObj r KCluster cKey (clusters r) k"

definition GetMachineBinding :: "ClusterReconciler \<Rightarrow> NamespacedName \<Rightarrow> error + MachineBinding" where
  "GetMachineBinding r k = getObj r KMachineBinding mbKey (machinebindings r) k"

definition GetSecret :: "ClusterReconciler \<Rightarrow> NamespacedName \<Rightarrow> error + Secret" where
  "GetSecret r k = getObj r KSecret sKey (secrets r) k"

definition GetPVC :: "ClusterReconciler \<Rightarrow> NamespacedName \<Rightarrow> error + PersistentVolumeClaim" where
  "GetPVC r k = getObj r KPersistentVolumeClaim pvcKey (pvcs r) k"

definition GetConfigMap :: "ClusterReconciler \<Rightarrow> NamespacedName \<Rightarrow> error + ConfigMap" where
  "GetConfigMap r k = getObj r KConfigMap cmKey (configmaps r) k"

definition GetJob :: "ClusterReconciler \<Rightarrow> NamespacedName \<Rightarrow> error + Job" where
  "GetJob r k = getObj r KJob jKey (jobs r) k"

text \<open>
  \<open>labels.SelectorFromSet\<close>: an object matches when it carries every label of the set
  with the same value.
\<close>

definition matchLabels :: "(string \<times> string) list \<Rightarrow> (string \<times> string) list \<Rightarrow> bool" where
  "matchLabels sel ls = list_all (\<lambda>(k, v). map_of ls k = Some v) sel"

definition ListMachines :: "ClusterReconciler \<Rightarrow> string \<Rightarrow> (string \<times> string) list
    \<Rightarrow> error + Machine list" where
  "ListMachines r ns sel =
     (if fault r (ReqList KMachine ns) then Inl StoreError
      else Inr (filter (\<lambda>m. m_namespace m = ns \<and> matchLabels sel (m_labels m)) (machines r)))"

definition ListMachineBindings :: "ClusterReconciler \<Rightarrow> string \<Rightarrow> (string \<times> string) list
    \<Rightarrow> error + MachineBinding list" where
  "ListMachineBindings r ns sel =
     (if fault r (ReqList KMachineBinding ns) then Inl StoreError
      else Inr (filter (\<lambda>b. mb_namespace b = ns \<and> matchLabels sel (mb_labels b))
                  (machinebindings r)))"

text \<open>
  \<open>reference.GetReference\<close>: the reference of an object, or an error.
\<close>

definition GetReference :: "ClusterReconciler \<Rightarrow> kind \<Rightarrow> NamespacedName
    \<Rightarrow> error option \<times> NamespacedName option" where
  "GetReference r kd k =
     (if fault r (ReqGetReference kd k) then (Some StoreError, None) else (None, Some k))"

text \<open>
  Create: the request is recorded; it fails on a fault or when an object of that name
  exists, and otherwise the object is added at the end of the listing.
\<close>

definition CreateMachineBindingObj :: "ClusterReconciler \<Rightarrow> MachineBinding
    \<Rightarrow> error option \<times> ClusterReconciler" where
  "CreateMachineBindingObj r mb =
     (let r1 = r\<lparr>calls := calls r @ [CreateMachineBinding mb]\<rparr> in
      if fault r (ReqCreate KMachineBinding (mbKey mb)) then (Some StoreError, r1)
      else if lookupObj mbKey (machinebindings r) (mbKey mb) \<noteq> None then (Some StoreError, r1)
      else (None, r1\<lparr>machinebindings := machinebindings r @ [mb]\<rparr>))"

definition CreateConfigMapObj :: "ClusterReconciler \<Rightarrow> ConfigMap
    \<Rightarrow> error option \<times> ClusterReconciler" where
  "CreateConfigMapObj r cm =
     (let r1 = r\<lparr>calls := calls r @ [CreateConfigMap cm]\<rparr> in
      if fault r (ReqCreate KConfigMap (cmKey cm)) then (Some StoreError, r1)
      else if lookupObj cmKey (configmaps r) (cmKey cm) \<noteq> None then (Some StoreError, r1)
      else (None, r1\<lparr>configmaps := configmaps r @ [cm]\<rparr>))"

definition CreateJobObj :: "ClusterReconciler \<Rightarrow> Job \<Rightarrow> error option \<times> ClusterReconciler" where
  "CreateJobObj r j =
     (let r1 = r\<lparr>calls := calls r @ [CreateJob j]\<rparr> in
      if fault r (ReqCreate KJob (jKey j)) then (Some StoreError, r1)
      else if lookupObj jKey (jobs r) (jKey j) \<noteq> None then (Some StoreError, r1)
      else (None, r1\<lparr>jobs := jobs r @ [j]\<rparr>))"

text \<open>
  Delete: the request is recorded with its grace period (for a Job); it fails on a fault
  or with \<open>NotFound\<close>, and otherwise the object leaves the listing.
\<close>

definition DeleteJobObj :: "ClusterReconciler \<Rightarrow> Job \<Rightarrow> int option
    \<Rightarrow> error option \<times> ClusterReconciler" where
  "DeleteJobObj r j grace =
     (let r1 = r\<lparr>calls := calls r @ [DeleteJob (jKey j) grace]\<rparr> in
      if fault r (ReqDelete KJob (jKey j)) then (Some StoreError, r1)
      else if lookupObj jKey (jobs r) (jKey j) = None then (Some NotFound, r1)
      else (None, r1\<lparr>jobs := filter (\<lambda>x. jKey x \<noteq> jKey j) (jobs r)\<rparr>))"

definition DeleteMachineBindingObj :: "ClusterReconciler \<Rightarrow> MachineBinding
    \<Rightarrow> error option \<times> ClusterReconciler" where
  "DeleteMachineBindingObj r mb =
     (let r1 = r\<lparr>calls := calls r @ [DeleteMachineBinding (mbKey mb)]\<rparr> in
      if fault r (ReqDelete KMachineBinding (mbKey mb)) then (Some StoreError, r1)
      else if lookupObj mbKey (machinebindings r) (mbKey mb) = None then (Some NotFound, r1)
      else (None, r1\<lparr>machinebindings := filter (\<lambda>x. mbKey x \<noteq> mbKey mb) (machinebindings r)\<rparr>))"

definition DeleteConfigMapObj :: "ClusterReconciler \<Rightarrow> ConfigMap
    \<Rightarrow> error option \<times> ClusterReconciler" where
  "DeleteConfigMapObj r cm =
     (let r1 = r\<lparr>calls := calls r @ [DeleteConfigMap (cmKey cm)]\<rparr> in
      if fault r (ReqDelete KConfigMap (cmKey cm)) then (Some StoreError, r1)
      else if lookupObj cmKey (configmaps r) (cmKey cm) = None then (Some NotFound, r1)
      else (None, r1\<lparr>configmaps := filter (\<lambda>x. cmKey x \<noteq> cmKey cm) (configmaps r)\<rparr>))"

text \<open>
  Update of a MachineBinding replaces the stored object. Update of a Cluster writes
  metadata and spec and keeps the stored status, Status().Update writes the status only
  (the Cluster has a status subresource).
\<close>

definition replaceObj :: "('a \<Rightarrow> NamespacedName) \<Rightarrow> ('a \<Rightarrow> 'a) \<Rightarrow> NamespacedName \<Rightarrow> 'a list \<Rightarrow> 'a list" where
  "replaceObj key f k xs = map (\<lambda>x. if key x = k then f x else x) xs"

definition UpdateMachineBindingObj :: "ClusterReconciler \<Rightarrow> MachineBinding
    \<Rightarrow> error option \<times> ClusterReconciler" where
  "UpdateMachineBindingObj r mb =
     (let r1 = r\<lparr>calls := calls r @ [UpdateMachineBinding mb]\<rparr> in
      if fault r (ReqUpdate KMachineBinding (mbKey mb)) then (Some StoreError, r1)
      else if lookupObj mbKey (machinebindings r) (mbKey mb) = None then (Some NotFound, r1)
      else (None, r1\<lparr>machinebindings := replaceObj mbKey (\<lambda>_. mb) (mbKey mb) (machinebindings r)\<rparr>))"

definition UpdateClusterObj :: "ClusterReconciler \<Rightarrow> Cluster \<Rightarrow> error option \<times> ClusterReconciler" where
  "UpdateClusterObj r c =
     (let r1 = r\<lparr>calls := calls r @ [UpdateCluster c]\<rparr> in
      if fault r (ReqUpdate KCluster (cKey c)) then (Some StoreError, r1)
      else if lookupObj cKey (clusters r) (cKey c) = None then (Some NotFound, r1)
      else (None, r1\<lparr>clusters := replaceObj cKey (\<lambda>old. c\<lparr>Status := Status old\<rparr>) (cKey c) (clusters r)\<rparr>))"

definition StatusUpdateClusterObj :: "ClusterReconciler \<Rightarrow> Cluster
    \<Rightarrow> error option \<times> ClusterReconciler" where
  "StatusUpdateClusterObj r c =
     (let r1 = r\<lparr>calls := calls r @ [UpdateClusterStatus c]\<rparr> in
      if fault r (ReqStatusUpdate KCluster (cKey c)) then (Some StoreError, r1)
      else if lookupObj cKey (clusters r) (cKey c) = None then (Some NotFound, r1)
      else (None, r1\<lparr>clusters := replaceObj cKey (\<lambda>old. old\<lparr>Status := Status c\<rparr>) (cKey c) (clusters r)\<rparr>))"

section \<open>Machine allocation\<close>

text \<open>
  Modelled from the spec: \<open>MachineBinding.AddMachine\<close> is a method of the API package,
  which is not among the sources. "Selected machines for a role are added to the Binding
  Record under that role's usage": the pair of the machine's UID and the usage is added to
  \<open>Usages\<close>, which the embedded file reads by UID.
\<close>

definition AddMachine :: "MachineBinding \<Rightarrow> Machine \<Rightarrow> usage \<Rightarrow> MachineBinding" where
  "AddMachine mb m u = mb\<lparr>Usages := Usages mb @ [(m_uid m, u)]\<rparr>"

definition labelSelectMachines :: "ClusterReconciler \<Rightarrow> string \<Rightarrow> RequireMachineConfig
    \<Rightarrow> error + Machine list" where
  "labelSelectMachines r namespace config = ListMachines r namespace (Features config)"

text \<open>
  The test in the loop of \<open>filterMachines\<close>: the MachineBindings of the eggo namespace
  labelled with the machine's name are listed; when the listing succeeds and is not empty,
  the machine is skipped if its UID is a key of \<open>Usages\<close> of the first item.
\<close>

definition bindingForUsage :: "ClusterReconciler \<Rightarrow> Machine \<Rightarrow> bool" where
  "bindingForUsage r item =
     (case ListMachineBindings r EggoNamespaceName [(m_name item, '''')] of
        Inl err \<Rightarrow> False
      | Inr [] \<Rightarrow> False
      | Inr (mb0 # _) \<Rightarrow> map_of (Usages mb0) (m_uid item) \<noteq> None)"

text \<open>The loop of \<open>filterMachines\<close> over the machines, with its three variables.\<close>

fun filterLoop :: "ClusterReconciler \<Rightarrow> int \<Rightarrow> Machine list
    \<Rightarrow> Machine list \<times> Machine list \<times> int \<Rightarrow> Machine list \<times> Machine list \<times> int" where
  "filterLoop r requiredNum [] acc = acc"
| "filterLoop r requiredNum (item # rest) (result, unused, foundCnt) =
     (if foundCnt = requiredNum then
        filterLoop r requiredNum rest (result, unused @ [item], foundCnt)
      else if bindingForUsage r item then
        filterLoop r requiredNum rest (result, unused @ [item], foundCnt)
      else
        filterLoop r requiredNum rest (result @ [item], unused, foundCnt + 1))"

definition noEnoughMachine :: error where
  "noEnoughMachine = Errorf ''no enough machine for requires''"

definition filterMachines :: "ClusterReconciler \<Rightarrow> string \<Rightarrow> RequireMachineConfig \<Rightarrow> Machine list
    \<Rightarrow> error + (Machine list \<times> Machine list)" where
  "filterMachines r namespace config ms =
     (if Number config \<le> 0 then Inr ([], ms)
      else
        let requiredNum = Number config in
        if int (length ms) < requiredNum then Inl noEnoughMachine
        else
          case filterLoop r requiredNum ms ([], [], 0) of
            (result, unused, foundCnt) \<Rightarrow>
              if foundCnt \<noteq> requiredNum then Inl noEnoughMachine
              else Inr (result, unused))"

text \<open>The loops of \<open>prepareMachineBinding\<close> that add the selected machines of one role.\<close>

fun addSelected :: "usage \<Rightarrow> Machine list \<Rightarrow> MachineBinding \<times> (string \<times> string) list
    \<Rightarrow> MachineBinding \<times> (string \<times> string) list" where
  "addSelected u [] acc = acc"
| "addSelected u (m # rest) (mb, labels) =
     addSelected u rest (AddMachine mb m u, AList.update (m_name m) '''' labels)"

definition emptyMachineBinding :: MachineBinding where
  "emptyMachineBinding =
     \<lparr>mb_namespace = '''', mb_name = '''', mb_labels = [], Usages = [], Conditions = []\<rparr>"

definition prepareMachineBinding :: "ClusterReconciler \<Rightarrow> Cluster
    \<Rightarrow> error option \<times> ClusterReconciler" where
  "prepareMachineBinding r cluster =
     (case labelSelectMachines r (c_namespace cluster) (MasterRequire (Spec cluster)) of
        Inl err \<Rightarrow> (Some err, r)
      | Inr ms0 \<Rightarrow>
     (case filterMachines r (c_namespace cluster) (MasterRequire (Spec cluster)) ms0 of
        Inl err \<Rightarrow> (Some err, r)
      | Inr (masterSelectedMachines, ms1) \<Rightarrow>
     let acc1 = addSelected UsageMaster masterSelectedMachines (emptyMachineBinding, []) in
     (case filterMachines r (c_namespace cluster) (WorkerRequire (Spec cluster)) ms1 of
        Inl err \<Rightarrow> (Some err, r)
      | Inr (workerSelectedMachines, ms2) \<Rightarrow>
     let acc2 = addSelected UsageWorker workerSelectedMachines acc1 in
     (case filterMachines r (c_namespace cluster) (EtcdRequire (Spec cluster)) ms2 of
        Inl err \<Rightarrow> (Some err, r)
      | Inr (etcdSelectedMachines, ms3) \<Rightarrow>
     let acc3 = addSelected UsageEtcd etcdSelectedMachines acc2 in
     (case filterMachines r (c_namespace cluster) (LoadbalanceRequires (Spec cluster)) ms3 of
        Inl err \<Rightarrow> (Some err, r)
      | Inr (lbSelectedMachines, _) \<Rightarrow>
     (case addSelected UsageLoadbalance lbSelectedMachines acc3 of
        (mb, labels) \<Rightarrow>
          CreateMachineBindingObj r
            (mb\<lparr>mb_name := MachineBindingFormat (c_name cluster),
                mb_labels := labels,
                mb_namespace := EggoNamespaceName\<rparr>)))))))"


section \<open>Helpers that live outside the embedded file\<close>

text \<open>
  Modelled from the spec: \<open>ReferenceToNamespacedName\<close> is a helper of the package kept
  in another file; it reads namespace and name of the reference it is given. \<open>refGet\<close> is
  a Get on its result; a nil reference cannot be read.
\<close>

definition refGet :: "(NamespacedName \<Rightarrow> error + 'a) \<Rightarrow> NamespacedName option \<Rightarrow> error + 'a" where
  "refGet get ref = (case ref of None \<Rightarrow> Inl Panic | Some k \<Rightarrow> get k)"

text \<open>
  Modelled from the spec: \<open>Cluster.IsCreated\<close> is a method of the API package ("If
  HasCluster is true: create/monitor a cleanup Work Item").
\<close>

definition IsCreated :: "Cluster \<Rightarrow> bool" where
  "IsCreated cluster = HasCluster (Status cluster)"

text \<open>
  Modelled from the spec: \<open>MachineBinding.UpdateCondition\<close> is a method of the API
  package; it sets the per-machine condition of the given UID.
\<close>

definition UpdateCondition :: "MachineBinding \<Rightarrow> MachineCondition \<Rightarrow> string \<Rightarrow> MachineBinding" where
  "UpdateCondition mb cond uid = mb\<lparr>Conditions := AList.update uid cond (Conditions mb)\<rparr>"

text \<open>
  Modelled from the spec: \<open>ConvertClusterToEggoConfig\<close> renders the configuration from
  Cluster, Binding and Credential, or fails.
\<close>

definition ConvertClusterToEggoConfig :: "ClusterReconciler \<Rightarrow> Cluster \<Rightarrow> MachineBinding \<Rightarrow> Secret
    \<Rightarrow> error + EggoConfig" where
  "ConvertClusterToEggoConfig r cluster mb secret =
     (if fault r (ReqConvert (cKey cluster)) then Inl (Errorf ''convert cluster failed'')
      else Inr (EggoConfig cluster mb secret))"

text \<open>\<open>err.Error()\<close>\<close>

fun errorString :: "error \<Rightarrow> string" where
  "errorString (Errorf s) = s"
| "errorString NotFound = ''not found''"
| "errorString StoreError = ''store error''"
| "errorString Panic = ''panic''"

definition filepath_Join :: "string \<Rightarrow> string \<Rightarrow> string" where
  "filepath_Join a b = a @ ''/'' @ b"

definition setStatus :: "(ClusterStatus \<Rightarrow> ClusterStatus) \<Rightarrow> Cluster \<Rightarrow> Cluster" where
  "setStatus f cluster = cluster\<lparr>Status := f (Status cluster)\<rparr>"

section \<open>Credential, volume and configuration snapshot\<close>

definition invalidSecret :: error where
  "invalidSecret = Errorf ''invalid secret''"

definition prepareSecret :: "ClusterReconciler \<Rightarrow> Cluster \<Rightarrow> error option \<times> Cluster" where
  "prepareSecret r cluster =
     (let ns = fst (MachineLoginSecret (Spec cluster));
          nm = snd (MachineLoginSecret (Spec cluster)) in
      if ns \<noteq> '''' \<and> ns \<noteq> EggoNamespaceName then
        (Some (Errorf (''machineLoginSecret '' @ nm @ '' namespace must be '' @ EggoNamespaceName)),
         cluster)
      else
        case GetSecret r (EggoNamespaceName, nm) of
          Inl err \<Rightarrow> (Some err, cluster)
        | Inr secret \<Rightarrow>
            if s_type secret = SecretTypeSSHAuth then
              (if map_of (s_data secret) SSHAuthPrivateKey = None then (Some invalidSecret, cluster)
               else (None, cluster))
            else if s_type secret \<noteq> SecretTypeBasicAuth then
              (Some (Errorf (''secret '' @ s_name secret @ '' type invalid'')), cluster)
            else if map_of (s_data secret) BasicAuthUsernameKey = None then
              (Some invalidSecret, cluster)
            else if map_of (s_data secret) BasicAuthPasswordKey = None then
              (Some invalidSecret, cluster)
            else
              case GetReference r KSecret (sKey secret) of
                (err, ref) \<Rightarrow>
                  (err, setStatus (\<lambda>s. s\<lparr>MachineLoginSecretRef := ref\<rparr>) cluster))"

definition preparePVCRef :: "ClusterReconciler \<Rightarrow> Cluster \<Rightarrow> error option \<times> Cluster" where
  "preparePVCRef r cluster0 =
     (let cluster =
            (if fst (PackagePersistentVolumeClaim (Spec cluster0)) = '''' then
               cluster0\<lparr>Spec := (Spec cluster0)\<lparr>PackagePersistentVolumeClaim :=
                 (EggoNamespaceName, snd (PackagePersistentVolumeClaim (Spec cluster0)))\<rparr>\<rparr>
             else cluster0) in
      if fst (PackagePersistentVolumeClaim (Spec cluster)) \<noteq> EggoNamespaceName then
        (Some (Errorf (''PackagePersistentVolumeClaimRef ''
                 @ snd (PackagePersistentVolumeClaim (Spec cluster))
                 @ '' namespace must be '' @ EggoNamespaceName)), cluster)
      else
        case GetPVC r (PackagePersistentVolumeClaim (Spec cluster)) of
          Inl err \<Rightarrow> (Some err, cluster)
        | Inr pvc \<Rightarrow>
            if pvc_phase pvc \<noteq> ClaimBound then
              (Some (Errorf (''persistentVolumeClaim '' @ pvc_name pvc
                       @ '' is not bound to a PersistentVolume'')), cluster)
            else
              case GetReference r KPersistentVolumeClaim (pvcKey pvc) of
                (err, ref) \<Rightarrow>
                  (err, setStatus (\<lambda>s. s\<lparr>PackagePersistentVolumeClaimRef := ref\<rparr>) cluster))"

definition prepareEggoConfig :: "ClusterReconciler \<Rightarrow> Cluster
    \<Rightarrow> Result \<times> error option \<times> Cluster \<times> ClusterReconciler" where
  "prepareEggoConfig r cluster =
     (case refGet (GetMachineBinding r) (MachineBindingRef (Status cluster)) of
        Inl err \<Rightarrow> (Result0, Some err, cluster, r)
      | Inr mb \<Rightarrow>
     (case refGet (GetSecret r) (MachineLoginSecretRef (Status cluster)) of
        Inl err \<Rightarrow> (Result0, Some err, cluster, r)
      | Inr secret \<Rightarrow>
     (case ConvertClusterToEggoConfig r cluster mb secret of
        Inl err \<Rightarrow> (Result0, Some err, cluster, r)
      | Inr data \<Rightarrow>
     (let cmName = ClusterConfigMapNameFormat (c_name cluster) ''cmd-config'' in
      case GetConfigMap r (EggoNamespaceName, cmName) of
        Inl err \<Rightarrow>
          if IgnoreNotFound err \<noteq> None then (Result0, Some err, cluster, r)
          else
            (case CreateConfigMapObj r
                    \<lparr>cm_namespace = EggoNamespaceName, cm_name = cmName,
                     cm_binaryData = [(ClusterConfigMapBinaryConfKey, data)]\<rparr> of
               (e, r') \<Rightarrow> (\<lparr>Requeue = False, RequeueAfter = Second * 2\<rparr>, e, cluster, r'))
      | Inr cm \<Rightarrow>
          (case GetReference r KConfigMap (cmKey cm) of
             (err, ref) \<Rightarrow>
               let cluster' = setStatus (\<lambda>s. s\<lparr>ConfigRef := ref\<rparr>) cluster in
               if err \<noteq> None then
                 (\<lparr>Requeue = False, RequeueAfter = Second * 2\<rparr>, err, cluster', r)
               else (Result0, None, cluster', r))))))"

section \<open>Work items\<close>

definition createEggoJobConfig :: "string \<Rightarrow> string \<Rightarrow> string \<Rightarrow> string \<Rightarrow> string \<Rightarrow> string
    \<Rightarrow> string \<Rightarrow> string list \<Rightarrow> Job" where
  "createEggoJobConfig jobName containerName img configPath configMapName packagePath
       pvcName command =
     \<lparr>j_namespace = EggoNamespaceName, j_name = jobName, j_creationTimestamp = 0,
      j_deletionTimestamp = None, j_conditions = [],
      j_containerName = containerName, j_image = img, j_command = command,
      j_hostNetwork = True,
      j_volumeMounts = [(''cluster-config'', configPath, True),
                        (''cluster-package'', packagePath, True)],
      j_configMapVolume = configMapName, j_pvcVolume = pvcName, j_secretVolume = None,
      j_restartPolicy = ''Never''\<rparr>"

definition addPrivateKeySecret :: "string \<Rightarrow> string \<Rightarrow> Job \<Rightarrow> Job" where
  "addPrivateKeySecret machineLoginSecret mountPath job =
     job\<lparr>j_secretVolume := Some machineLoginSecret,
         j_volumeMounts := j_volumeMounts job @ [(''privatekey-secret'', mountPath, True)]\<rparr>"

text \<open>The Job that both \<open>prepareCreateClusterJob\<close> and \<open>prepareDeleteClusterJob\<close> build.\<close>

definition eggoJob :: "Cluster \<Rightarrow> string \<Rightarrow> string \<Rightarrow> Secret \<Rightarrow> PersistentVolumeClaim \<Rightarrow> Job" where
  "eggoJob cluster jobName action secret packagePVC =
     (let cmName = ClusterConfigMapNameFormat (c_name cluster) ''cmd-config'';
          configPath = EggoConfigVolumeFormat (c_name cluster);
          Command = [''eggo'', ''-d'', action, ''-f'',
                     filepath_Join configPath ClusterConfigMapBinaryConfKey];
          job = createEggoJobConfig jobName ''eggo-create-cluster'' (''eggo:'' @ ImageVersion)
                  configPath cmName (PackageVolumeFormat (c_name cluster))
                  (pvc_name packagePVC) Command in
      if s_type secret = SecretTypeSSHAuth then
        addPrivateKeySecret (s_name secret) (PrivateKeyVolumeFormat (c_name cluster)) job
      else job)"

definition prepareCreateClusterJob :: "ClusterReconciler \<Rightarrow> Cluster
    \<Rightarrow> error option \<times> Cluster \<times> ClusterReconciler" where
  "prepareCreateClusterJob r cluster =
     (let jobName = c_name cluster @ ''-create-job'' in
      case GetJob r (EggoNamespaceName, jobName) of
        Inr job \<Rightarrow>
          (case GetReference r KJob (jKey job) of
             (err, ref) \<Rightarrow> (err, setStatus (\<lambda>s. s\<lparr>JobRef := ref\<rparr>) cluster, r))
      | Inl err \<Rightarrow>
          if IgnoreNotFound err \<noteq> None then (Some err, cluster, r)
          else
            (case refGet (GetSecret r) (MachineLoginSecretRef (Status cluster)) of
               Inl err \<Rightarrow> (Some err, cluster, r)
             | Inr secret \<Rightarrow>
            (case refGet (GetPVC r) (PackagePersistentVolumeClaimRef (Status cluster)) of
               Inl err \<Rightarrow> (Some err, cluster, r)
             | Inr packagePVC \<Rightarrow>
            (case CreateJobObj r (eggoJob cluster jobName ''deploy'' secret packagePVC) of
               (e, r') \<Rightarrow> (e, cluster, r')))))"

fun jobIsFinishedLoop :: "string \<Rightarrow> JobCondition list \<Rightarrow> bool \<times> error option" where
  "jobIsFinishedLoop n [] = (False, None)"
| "jobIsFinishedLoop n (c # cs) =
     (if c_status c = ConditionTrue then
        (if c_type c = JobComplete then (True, None)
         else if c_type c = JobFailed then
           (True, Some (Errorf (''job: '' @ n @ '' failed: '' @ c_reason c)))
         else jobIsFinishedLoop n cs)
      else jobIsFinishedLoop n cs)"

definition jobIsFinished :: "Job \<Rightarrow> bool \<times> error option" where
  "jobIsFinished job = jobIsFinishedLoop (j_name job) (j_conditions job)"

definition appendHistory :: "JobHistory \<Rightarrow> Cluster \<Rightarrow> Cluster" where
  "appendHistory h cluster = setStatus (\<lambda>s. s\<lparr>JobHistorys := JobHistorys s @ [h]\<rparr>) cluster"

definition checkAndLogClusterJob :: "ClusterReconciler \<Rightarrow> Cluster
    \<Rightarrow> bool \<times> error option \<times> Cluster \<times> ClusterReconciler" where
  "checkAndLogClusterJob r cluster =
     (case refGet (GetJob r) (JobRef (Status cluster)) of
        Inl err \<Rightarrow> (False, Some err, cluster, r)
      | Inr job \<Rightarrow>
     (case jobIsFinished job of
        (finish, err) \<Rightarrow>
          if \<not> finish then (finish, err, cluster, r)
          else
            let history = \<lparr>h_Name = j_name job, h_StartTime = j_creationTimestamp job,
                           h_FinishTime = j_deletionTimestamp job, h_Message = ''''\<rparr> in
            (case err of
               None \<Rightarrow> (finish, err, cluster, r)
             | Some e \<Rightarrow>
                 (case DeleteJobObj r job None of
                    (Some terr, r') \<Rightarrow> (finish, err, cluster, r')
                  | (None, r') \<Rightarrow>
                      (finish, err,
                       setStatus (\<lambda>s. s\<lparr>JobRef := None\<rparr>)
                         (appendHistory (history\<lparr>h_Message := errorString e\<rparr>) cluster),
                       r')))))"

definition updateMachineBindingStatus :: "ClusterReconciler \<Rightarrow> Cluster
    \<Rightarrow> error option \<times> ClusterReconciler" where
  "updateMachineBindingStatus r cluster =
     (case refGet (GetMachineBinding r) (MachineBindingRef (Status cluster)) of
        Inl err \<Rightarrow> (Some err, r)
      | Inr mb \<Rightarrow>
          UpdateMachineBindingObj r
            (fold (\<lambda>(uid, u) b. UpdateCondition b \<lparr>UsagesStatus = u, Message = ''success''\<rparr> uid)
               (Usages mb) mb))"

section \<open>The creation path\<close>

definition reconcileCreate :: "ClusterReconciler \<Rightarrow> Cluster
    \<Rightarrow> Result \<times> error option \<times> Cluster \<times> ClusterReconciler" where
  "reconcileCreate r cluster =
     (if MachineBindingRef (Status cluster) = None then
        (case GetMachineBinding r (EggoNamespaceName, MachineBindingFormat (c_name cluster)) of
           Inl err \<Rightarrow>
             if IgnoreNotFound err \<noteq> None then (Result0, Some err, cluster, r)
             else
               (case prepareMachineBinding r cluster of
                  (e, r') \<Rightarrow> (\<lparr>Requeue = False, RequeueAfter = Second * 2\<rparr>, e, cluster, r'))
         | Inr mb \<Rightarrow>
             (case GetReference r KMachineBinding (mbKey mb) of
                (err, ref) \<Rightarrow>
                  (Result0, err, setStatus (\<lambda>s. s\<lparr>MachineBindingRef := ref\<rparr>) cluster, r)))
      else if MachineLoginSecretRef (Status cluster) = None then
        (case prepareSecret r cluster of
           (err, cluster') \<Rightarrow>
             ((if err \<noteq> None then \<lparr>Requeue = False, RequeueAfter = Second * 30\<rparr> else Result0),
              err, cluster', r))
      else if PackagePersistentVolumeClaimRef (Status cluster) = None then
        (case preparePVCRef r cluster of
           (err, cluster') \<Rightarrow>
             ((if err \<noteq> None then \<lparr>Requeue = False, RequeueAfter = Second * 30\<rparr> else Result0),
              err, cluster', r))
      else if ConfigRef (Status cluster) = None then prepareEggoConfig r cluster
      else if JobRef (Status cluster) = None then
        (case prepareCreateClusterJob r cluster of
           (err, cluster', r') \<Rightarrow>
             (\<lparr>Requeue = False, RequeueAfter = Second * 2\<rparr>, err, cluster', r'))
      else
        (case checkAndLogClusterJob r cluster of
           (finish, err, cluster', r') \<Rightarrow>
             if \<not> finish \<or> err \<noteq> None then
               (\<lparr>Requeue = False, RequeueAfter = Second * 5\<rparr>, err, cluster', r')
             else
               (case updateMachineBindingStatus r' cluster' of
                  (Some e, r'') \<Rightarrow> (Result0, Some e, cluster', r'')
                | (None, r'') \<Rightarrow>
                    (Result0, None,
                     setStatus (\<lambda>s. s\<lparr>HasCluster := True,
                                       st_Message := ''create cluster job successfully''\<rparr>) cluster',
                     r''))))"

fun foundString :: "string list \<Rightarrow> string \<Rightarrow> bool" where
  "foundString [] target = False"
| "foundString (item # rest) target = (if item = target then True else foundString rest target)"

definition reconcile :: "ClusterReconciler \<Rightarrow> Cluster
    \<Rightarrow> Result \<times> error option \<times> Cluster \<times> ClusterReconciler" where
  "reconcile r cluster =
     (if \<not> IsCreated cluster then
        (case reconcileCreate r cluster of
           (res, err, cluster', r') \<Rightarrow>
             if err \<noteq> None then (res, err, cluster', r')
             else
               (case StatusUpdateClusterObj r' cluster' of
                  (e, r'') \<Rightarrow> (res, e, cluster', r'')))
      else (Result0, None, cluster, r))"

section \<open>The deletion path\<close>

definition prepareDeleteClusterJob :: "ClusterReconciler \<Rightarrow> Cluster
    \<Rightarrow> bool \<times> error option \<times> Cluster \<times> ClusterReconciler" where
  "prepareDeleteClusterJob r cluster =
     (let jobName = c_name cluster @ ''-delete-job'' in
      case GetJob r (EggoNamespaceName, jobName) of
        Inr job \<Rightarrow>
          (case jobIsFinished job of
             (finish, terr) \<Rightarrow>
               if finish then
                 (let history = \<lparr>h_Name = j_name job, h_StartTime = j_creationTimestamp job,
                                 h_FinishTime = None,
                                 h_Message = (case terr of Some e \<Rightarrow> errorString e
                                              | None \<Rightarrow> ''success'')\<rparr> in
                  case DeleteJobObj r job None of
                    (None, r') \<Rightarrow> (finish, terr, appendHistory history cluster, r')
                  | (Some err, r') \<Rightarrow> (finish, terr, cluster, r'))
               else (finish, terr, cluster, r))
      | Inl err \<Rightarrow>
          if IgnoreNotFound err \<noteq> None then (False, Some err, cluster, r)
          else
            (case refGet (GetSecret r) (MachineLoginSecretRef (Status cluster)) of
               Inl err \<Rightarrow> (False, Some err, cluster, r)
             | Inr secret \<Rightarrow>
            (case refGet (GetPVC r) (PackagePersistentVolumeClaimRef (Status cluster)) of
               Inl err \<Rightarrow> (False, Some err, cluster, r)
             | Inr packagePVC \<Rightarrow>
            (case CreateJobObj r (eggoJob cluster jobName ''cleanup'' secret packagePVC) of
               (e, r') \<Rightarrow> (False, e, cluster, r')))))"

text \<open>
  \<open>reconcileDelete\<close>, cut at its five step comments. Its Go error result is always nil;
  the error of the model is \<open>Some Panic\<close> or \<open>None\<close>.
\<close>

definition deleteStep5 :: "ClusterReconciler \<Rightarrow> Cluster
    \<Rightarrow> Result \<times> error option \<times> Cluster \<times> ClusterReconciler" where
  "deleteStep5 r cluster0 =
     (let cluster = setStatus (\<lambda>s. s\<lparr>MachineBindingRef := None,
                                      PackagePersistentVolumeClaimRef := None,
                                      Deleted := True\<rparr>) cluster0 in
      case StatusUpdateClusterObj r cluster of
        (Some err, r') \<Rightarrow> (\<lparr>Requeue = False, RequeueAfter = Second * 5\<rparr>, None, cluster, r')
      | (None, r') \<Rightarrow> (Result0, None, cluster, r'))"

definition deleteStep4 :: "ClusterReconciler \<Rightarrow> Cluster
    \<Rightarrow> Result \<times> error option \<times> Cluster \<times> ClusterReconciler" where
  "deleteStep4 r cluster =
     (case ConfigRef (Status cluster) of
        None \<Rightarrow> deleteStep5 r cluster
      | Some ref \<Rightarrow>
          (case GetConfigMap r ref of
             Inr cm \<Rightarrow>
               (case DeleteConfigMapObj r cm of
                  (e, r') \<Rightarrow> (\<lparr>Requeue = True, RequeueAfter = 0\<rparr>, None, cluster, r'))
           | Inl err \<Rightarrow> deleteStep5 r (setStatus (\<lambda>s. s\<lparr>ConfigRef := None\<rparr>) cluster)))"

definition deleteStep3 :: "ClusterReconciler \<Rightarrow> Cluster
    \<Rightarrow> Result \<times> error option \<times> Cluster \<times> ClusterReconciler" where
  "deleteStep3 r cluster =
     (case MachineBindingRef (Status cluster) of
        None \<Rightarrow> deleteStep4 r cluster
      | Some ref \<Rightarrow>
          (case GetMachineBinding r ref of
             Inr mb \<Rightarrow>
               (case DeleteMachineBindingObj r mb of
                  (e, r') \<Rightarrow> (\<lparr>Requeue = True, RequeueAfter = 0\<rparr>, None, cluster, r'))
           | Inl err \<Rightarrow> deleteStep4 r (setStatus (\<lambda>s. s\<lparr>MachineBindingRef := None\<rparr>) cluster)))"

definition deleteStep2 :: "ClusterReconciler \<Rightarrow> Cluster
    \<Rightarrow> Result \<times> error option \<times> Cluster \<times> ClusterReconciler" where
  "deleteStep2 r cluster =
     (if IsCreated cluster then
        (case prepareDeleteClusterJob r cluster of
           (finish, err, cluster', r') \<Rightarrow>
             if err = Some Panic then (Result0, Some Panic, cluster', r')
             else if \<not> finish then
               (\<lparr>Requeue = False, RequeueAfter = Second * 5\<rparr>, None, cluster', r')
             else if err \<noteq> None then
               (\<lparr>Requeue = False, RequeueAfter = Second\<rparr>, None, cluster', r')
             else deleteStep3 r' (setStatus (\<lambda>s. s\<lparr>HasCluster := False\<rparr>) cluster'))
      else deleteStep3 r cluster)"

definition reconcileDelete :: "ClusterReconciler \<Rightarrow> Cluster
    \<Rightarrow> Result \<times> error option \<times> Cluster \<times> ClusterReconciler" where
  "reconcileDelete r cluster =
     (case JobRef (Status cluster) of
        None \<Rightarrow> deleteStep2 r cluster
      | Some ref \<Rightarrow>
          (case GetJob r ref of
             Inr job \<Rightarrow>
               (case jobIsFinished job of
                  (finish, _) \<Rightarrow>
                    (case DeleteJobObj r job (if \<not> finish then Some 60 else None) of
                       (err, r') \<Rightarrow>
                         (\<lparr>Requeue = False, RequeueAfter = Second * 5\<rparr>, None, cluster, r')))
           | Inl err \<Rightarrow>
               if IgnoreNotFound err \<noteq> None then
                 (\<lparr>Requeue = False, RequeueAfter = Second * 5\<rparr>, None, cluster, r)
               else deleteStep2 r (setStatus (\<lambda>s. s\<lparr>JobRef := None\<rparr>) cluster)))"

section \<open>Reconcile\<close>

definition IsZero :: "nat option \<Rightarrow> bool" where
  "IsZero t = (case t of None \<Rightarrow> True | Some n \<Rightarrow> n = 0)"

definition AddFinalizer :: "Cluster \<Rightarrow> string \<Rightarrow> Cluster" where
  "AddFinalizer cluster f =
     (if f \<in> set (Finalizers cluster) then cluster
      else cluster\<lparr>Finalizers := Finalizers cluster @ [f]\<rparr>)"

definition RemoveFinalizer :: "Cluster \<Rightarrow> string \<Rightarrow> Cluster" where
  "RemoveFinalizer cluster f = cluster\<lparr>Finalizers := filter (\<lambda>x. x \<noteq> f) (Finalizers cluster)\<rparr>"

text \<open>The body of Reconcile after the Cluster has been fetched, up to its return.\<close>

definition reconcileBody :: "ClusterReconciler \<Rightarrow> Cluster
    \<Rightarrow> Result \<times> error option \<times> Cluster \<times> ClusterReconciler" where
  "reconcileBody r cluster =
     (if IsZero (DeletionTimestamp cluster) then
        (if \<not> foundString (Finalizers cluster) ClusterFinalizerName then
           (Result0, None, AddFinalizer cluster ClusterFinalizerName, r)
         else reconcile r cluster)
      else
        (if foundString (Finalizers cluster) ClusterFinalizerName then
           (case reconcileDelete r cluster of
              (res, err, cluster', r') \<Rightarrow>
                if err \<noteq> None then (res, err, cluster', r')
                else (res, None, RemoveFinalizer cluster' ClusterFinalizerName, r'))
         else (Result0, None, cluster, r)))"

text \<open>
  The deferred function: it returns at once when the result error is set, and otherwise
  updates the Cluster and takes the error of the update as the result error. During a
  panic the result error has not been assigned, so the update runs.
\<close>

definition Reconcile :: "ClusterReconciler \<Rightarrow> NamespacedName
    \<Rightarrow> Result \<times> error option \<times> ClusterReconciler" where
  "Reconcile r req =
     (case GetCluster r req of
        Inl terr \<Rightarrow> (Result0, IgnoreNotFound terr, r)
      | Inr cluster0 \<Rightarrow>
          (case reconcileBody r cluster0 of
             (res, err, cluster, r') \<Rightarrow>
               if err = Some Panic then
                 (case UpdateClusterObj r' cluster of (e, r'') \<Rightarrow> (res, Some Panic, r''))
               else if err \<noteq> None then (res, err, r')
               else
                 (case UpdateClusterObj r' cluster of (e, r'') \<Rightarrow> (res, e, r''))))"

section \<open>Notions used in the statements\<close>

text \<open>The UIDs of a list of machines: the identity under which a binding records them.\<close>

definition uids :: "Machine list \<Rightarrow> string set" where
  "uids ms = set (map m_uid ms)"

text \<open>A condition that ends a Job: status true and type Complete or Failed.\<close>

definition terminalTrue :: "JobCondition \<Rightarrow> bool" where
  "terminalTrue c = (c_status c = ConditionTrue \<and> (c_type c = JobComplete \<or> c_type c = JobFailed))"

text \<open>The key under which \<open>prepareDeleteClusterJob\<close> looks the cleanup Job up.\<close>

definition cleanupJobName :: "Cluster \<Rightarrow> NamespacedName" where
  "cleanupJobName cluster = (EggoNamespaceName, c_name cluster @ ''-delete-job'')"

text \<open>
  The four references that only the deletion path may clear: where set before a step,
  unchanged after it.
\<close>

definition refsKept :: "ClusterStatus \<Rightarrow> ClusterStatus \<Rightarrow> bool" where
  "refsKept s s' =
     ((MachineBindingRef s \<noteq> None \<longrightarrow> MachineBindingRef s' = MachineBindingRef s)
    \<and> (MachineLoginSecretRef s \<noteq> None \<longrightarrow> MachineLoginSecretRef s' = MachineLoginSecretRef s)
    \<and> (PackagePersistentVolumeClaimRef s \<noteq> None
         \<longrightarrow> PackagePersistentVolumeClaimRef s' = PackagePersistentVolumeClaimRef s)
    \<and> (ConfigRef s \<noteq> None \<longrightarrow> ConfigRef s' = ConfigRef s))"

text \<open>
  The reference to the Job: where set before a step, afterwards either unchanged, or nil
  after the monitor found the Job failed and its Delete succeeded.
\<close>

definition jobRefKeptOrFailed :: "ClusterReconciler \<Rightarrow> ClusterStatus \<Rightarrow> ClusterStatus \<Rightarrow> bool" where
  "jobRefKeptOrFailed r s s' =
     (JobRef s \<noteq> None \<longrightarrow>
        JobRef s' = JobRef s
      \<or> (JobRef s' = None
         \<and> (\<exists>job e r1. refGet (GetJob r) (JobRef s) = Inr job
                \<and> jobIsFinished job = (True, Some e)
                \<and> DeleteJobObj r job None = (None, r1))))"

section \<open>Concrete stores and clusters\<close>

definition emptyStore :: ClusterReconciler where
  "emptyStore = \<lparr>machines = [], machinebindings = [], secrets = [], pvcs = [], configmaps = [],
     jobs = [], clusters = [], calls = [], fault = (\<lambda>_. False)\<rparr>"

definition machine1 :: Machine where
  "machine1 = \<lparr>m_namespace = ''default'', m_name = ''node1'', m_uid = ''uid-1'', m_labels = []\<rparr>"

definition machine2 :: Machine where
  "machine2 = \<lparr>m_namespace = ''default'', m_name = ''node2'', m_uid = ''uid-2'', m_labels = []\<rparr>"

definition machine3 :: Machine where
  "machine3 = \<lparr>m_namespace = ''default'', m_name = ''node3'', m_uid = ''uid-3'', m_labels = []\<rparr>"

definition poolStore :: ClusterReconciler where
  "poolStore = emptyStore\<lparr>machines := [machine1, machine2, machine3]\<rparr>"

definition require :: "int \<Rightarrow> RequireMachineConfig" where
  "require n = \<lparr>Number = n, Features = []\<rparr>"

definition emptyStatus :: ClusterStatus where
  "emptyStatus = \<lparr>MachineBindingRef = None, MachineLoginSecretRef = None,
     PackagePersistentVolumeClaimRef = None, ConfigRef = None, JobRef = None,
     HasCluster = False, Deleted = False, st_Message = '''', JobHistorys = []\<rparr>"

text \<open>Scenario A: master 1, worker 2, etcd 0, over a pool of three machines.\<close>

definition scenarioCluster :: Cluster where
  "scenarioCluster = \<lparr>c_namespace = ''default'', c_name = ''c1'', DeletionTimestamp = None,
     Finalizers = [ClusterFinalizerName],
     Spec = \<lparr>MasterRequire = require 1, WorkerRequire = require 2, EtcdRequire = require 0,
             LoadbalanceRequires = require 0,
             MachineLoginSecret = (EggoNamespaceName, ''login''),
             PackagePersistentVolumeClaim = (EggoNamespaceName, ''packages'')\<rparr>,
     Status = emptyStatus\<rparr>"

definition scenarioBinding :: MachineBinding where
  "scenarioBinding = \<lparr>mb_namespace = EggoNamespaceName, mb_name = ''machinebind-c1'',
     mb_labels = [(''node1'', ''''), (''node2'', ''''), (''node3'', '''')],
     Usages = [(''uid-1'', UsageMaster), (''uid-2'', UsageWorker), (''uid-3'', UsageWorker)],
     Conditions = []\<rparr>"

definition allocatedStore :: ClusterReconciler where
  "allocatedStore = poolStore\<lparr>calls := [CreateMachineBinding scenarioBinding],
     machinebindings := [scenarioBinding]\<rparr>"

text \<open>
  A machine named node1 with UID uid-9, bound in the second of two bindings that carry
  the label node1; the first one holds another machine of that name (UID uid-1).
\<close>

definition machine9 :: Machine where
  "machine9 = \<lparr>m_namespace = ''default'', m_name = ''node1'', m_uid = ''uid-9'', m_labels = []\<rparr>"

definition staleBinding :: MachineBinding where
  "staleBinding = \<lparr>mb_namespace = EggoNamespaceName, mb_name = ''machinebind-c0'',
     mb_labels = [(''node1'', '''')], Usages = [(''uid-1'', UsageMaster)], Conditions = []\<rparr>"

definition liveBinding :: MachineBinding where
  "liveBinding = \<lparr>mb_namespace = EggoNamespaceName, mb_name = ''machinebind-c2'',
     mb_labels = [(''node1'', '''')], Usages = [(''uid-9'', UsageMaster)], Conditions = []\<rparr>"

definition reusedNameStore :: ClusterReconciler where
  "reusedNameStore = emptyStore\<lparr>machines := [machine9],
     machinebindings := [staleBinding, liveBinding]\<rparr>"

text \<open>A Job with a Failed condition listed before a Complete one, both with status true.\<close>

definition job_failed_then_complete :: Job where
  "job_failed_then_complete =
     (createEggoJobConfig ''c1-create-job'' ''eggo-create-cluster'' ''eggo:latest'' ''/cfg'' ''cm''
        ''/pkg'' ''pvc'' [])
     \<lparr>j_conditions :=
        [\<lparr>c_type = JobFailed, c_status = ConditionTrue, c_reason = ''exit 1''\<rparr>,
         \<lparr>c_type = JobComplete, c_status = ConditionTrue, c_reason = ''''\<rparr>]\<rparr>"

text \<open>The credential, the volume, and the Jobs of cluster c1 in the states used below.\<close>

definition loginSecret :: Secret where
  "loginSecret = \<lparr>s_namespace = EggoNamespaceName, s_name = ''login'',
     s_type = SecretTypeBasicAuth, s_data = [(''username'', ''root''), (''password'', ''secret'')]\<rparr>"

definition packagesPVC :: PersistentVolumeClaim where
  "packagesPVC = \<lparr>pvc_namespace = EggoNamespaceName, pvc_name = ''packages'',
     pvc_phase = ClaimBound\<rparr>"

definition completeCondition :: JobCondition where
  "completeCondition = \<lparr>c_type = JobComplete, c_status = ConditionTrue, c_reason = ''''\<rparr>"

definition failedCondition :: JobCondition where
  "failedCondition = \<lparr>c_type = JobFailed, c_status = ConditionTrue, c_reason = ''exit 1''\<rparr>"

definition deployJob :: "JobCondition list \<Rightarrow> Job" where
  "deployJob conds = (eggoJob scenarioCluster ''c1-create-job'' ''deploy'' loginSecret packagesPVC)
     \<lparr>j_creationTimestamp := 100, j_conditions := conds\<rparr>"

definition cleanupJob :: "JobCondition list \<Rightarrow> Job" where
  "cleanupJob conds = (eggoJob scenarioCluster ''c1-delete-job'' ''cleanup'' loginSecret packagesPVC)
     \<lparr>j_creationTimestamp := 200, j_conditions := conds\<rparr>"

definition deployedStatus :: ClusterStatus where
  "deployedStatus = \<lparr>MachineBindingRef = Some (EggoNamespaceName, ''machinebind-c1''),
     MachineLoginSecretRef = Some (EggoNamespaceName, ''login''),
     PackagePersistentVolumeClaimRef = Some (EggoNamespaceName, ''packages''),
     ConfigRef = Some (EggoNamespaceName, ''eggo-cluster-c1-cmd-config''),
     JobRef = Some (EggoNamespaceName, ''c1-create-job''),
     HasCluster = False, Deleted = False, st_Message = '''', JobHistorys = []\<rparr>"

definition monitoringCluster :: Cluster where
  "monitoringCluster = scenarioCluster\<lparr>Status := deployedStatus\<rparr>"

definition monitoringStore :: "Job list \<Rightarrow> ClusterReconciler" where
  "monitoringStore js = emptyStore\<lparr>machines := [machine1, machine2, machine3],
     machinebindings := [scenarioBinding], secrets := [loginSecret], pvcs := [packagesPVC],
     jobs := js, clusters := [monitoringCluster]\<rparr>"

definition deletingCluster :: Cluster where
  "deletingCluster = monitoringCluster\<lparr>DeletionTimestamp := Some 7,
     Status := deployedStatus\<lparr>HasCluster := True\<rparr>\<rparr>"

definition deletingStore :: "Job list \<Rightarrow> ClusterReconciler" where
  "deletingStore js = (monitoringStore js)\<lparr>clusters := [deletingCluster]\<rparr>"

definition teardownCluster :: Cluster where
  "teardownCluster = deletingCluster\<lparr>Status := emptyStatus\<lparr>
     MachineLoginSecretRef := Some (EggoNamespaceName, ''login''),
     PackagePersistentVolumeClaimRef := Some (EggoNamespaceName, ''packages'')\<rparr>\<rparr>"

definition teardownStore :: ClusterReconciler where
  "teardownStore = emptyStore\<lparr>secrets := [loginSecret], pvcs := [packagesPVC],
     clusters := [teardownCluster]\<rparr>"

definition awaitingSecretCluster :: Cluster where
  "awaitingSecretCluster = scenarioCluster\<lparr>Status := emptyStatus\<lparr>
     MachineBindingRef := Some (EggoNamespaceName, ''machinebind-c1'')\<rparr>\<rparr>"

definition awaitingSecretStore :: ClusterReconciler where
  "awaitingSecretStore = emptyStore\<lparr>machines := [machine1, machine2, machine3],
     machinebindings := [scenarioBinding], clusters := [awaitingSecretCluster]\<rparr>"

section \<open>Unfolding the definitions on concrete inputs\<close>

lemmas example_defs = emptyStore_def machine1_def machine2_def machine3_def poolStore_def
  require_def emptyStatus_def scenarioCluster_def scenarioBinding_def allocatedStore_def
  machine9_def staleBinding_def liveBinding_def reusedNameStore_def

lemmas const_defs = EggoNamespaceName_def MachineBindingFormat_def ClusterFinalizerName_def
  Result0_def Second_def

lemmas store_defs = getObj_def lookupObj_def mKey_def mbKey_def sKey_def pvcKey_def cmKey_def
  jKey_def cKey_def GetCluster_def GetMachineBinding_def GetSecret_def GetPVC_def
  GetConfigMap_def GetJob_def matchLabels_def ListMachines_def ListMachineBindings_def
  GetReference_def CreateMachineBindingObj_def CreateConfigMapObj_def CreateJobObj_def
  DeleteJobObj_def DeleteMachineBindingObj_def DeleteConfigMapObj_def replaceObj_def
  UpdateMachineBindingObj_def UpdateClusterObj_def StatusUpdateClusterObj_def refGet_def
  IgnoreNotFound_def

lemmas pipeline_example_defs = loginSecret_def packagesPVC_def completeCondition_def
  failedCondition_def deployJob_def cleanupJob_def deployedStatus_def monitoringCluster_def
  monitoringStore_def deletingCluster_def deletingStore_def teardownCluster_def
  teardownStore_def awaitingSecretCluster_def awaitingSecretStore_def

lemmas job_defs = eggoJob_def createEggoJobConfig_def addPrivateKeySecret_def
  ClusterConfigMapNameFormat_def ClusterConfigMapBinaryConfKey_def EggoConfigVolumeFormat_def
  PackageVolumeFormat_def PrivateKeyVolumeFormat_def ImageVersion_def filepath_Join_def
  jobIsFinished_def

lemmas reconcile_defs = Reconcile_def reconcileBody_def reconcile_def reconcileCreate_def
  reconcileDelete_def deleteStep2_def deleteStep3_def deleteStep4_def deleteStep5_def
  prepareDeleteClusterJob_def checkAndLogClusterJob_def updateMachineBindingStatus_def
  prepareSecret_def IsZero_def IsCreated_def AddFinalizer_def RemoveFinalizer_def
  setStatus_def appendHistory_def UpdateCondition_def cleanupJobName_def

lemmas all_defs = reconcile_defs job_defs pipeline_example_defs example_defs const_defs
  store_defs Let_def

section \<open>Machine allocation\<close>

subsection \<open>What \<open>filterMachines\<close> does to its candidates\<close>

text \<open>
  The loop moves every candidate either to the selection or to the unused ones: as
  multisets, nothing is lost and nothing is duplicated.
\<close>

lemma filterLoop_mset:
  "filterLoop r n ms (res, un, cnt) = (res', un', cnt')
   \<Longrightarrow> mset res' + mset un' = mset res + mset un + mset ms"
  by (induction ms arbitrary: res un cnt) (auto split: if_splits)

lemma filterMachines_mset:
  assumes "filterMachines r ns cfg ms = Inr (sel, un)"
  shows "mset sel + mset un = mset ms"
proof (cases "Number cfg \<le> 0")
  case True
  with assms show ?thesis by (simp add: filterMachines_def)
next
  case False
  obtain res un' cnt where L: "filterLoop r (Number cfg) ms ([], [], 0) = (res, un', cnt)"
    by (cases "filterLoop r (Number cfg) ms ([], [], 0)") auto
  with assms False have "sel = res" "un = un'"
    by (auto simp: filterMachines_def Let_def split: if_splits)
  with filterLoop_mset[OF L] show ?thesis by simp
qed

text \<open>The counter never exceeds the number of candidates the skip test lets through.\<close>

lemma filterLoop_count:
  "filterLoop r n ms (res, un, cnt) = (res', un', cnt')
   \<Longrightarrow> cnt' \<le> cnt + int (length (filter (\<lambda>m. \<not> bindingForUsage r m) ms))"
  by (induction ms arbitrary: res un cnt) (fastforce split: if_splits)+

text \<open>
  With fewer candidates passing the skip test of the code than required,
  \<open>filterMachines\<close> fails and returns no selection.
\<close>

lemma filterMachines_insufficient:
  assumes "0 < Number cfg"
      and "int (length (filter (\<lambda>m. \<not> bindingForUsage r m) ms)) < Number cfg"
  shows "filterMachines r ns cfg ms = Inl noEnoughMachine"
proof -
  obtain res un cnt where L: "filterLoop r (Number cfg) ms ([], [], 0) = (res, un, cnt)"
    by (cases "filterLoop r (Number cfg) ms ([], [], 0)") auto
  from filterLoop_count[OF L] assms(2) have "cnt \<noteq> Number cfg" by simp
  with assms(1) L show ?thesis by (simp add: filterMachines_def Let_def)
qed

lemma addSelected_Usages:
  "addSelected u ms (mb, ls) = (mb', ls')
   \<Longrightarrow> Usages mb' = Usages mb @ map (\<lambda>m. (m_uid m, u)) ms"
  by (induction ms arbitrary: mb ls) (auto simp: AddMachine_def)

lemma distinct_uid_mset:
  "mset xs = mset ys \<Longrightarrow> distinct (map m_uid xs) = distinct (map m_uid ys)"
  by (metis mset_eq_imp_distinct_iff mset_map)

lemma uids_mset: "mset (xs @ ys) = mset zs \<Longrightarrow> uids zs = uids xs \<union> uids ys"
proof -
  assume "mset (xs @ ys) = mset zs"
  then have "set (xs @ ys) = set zs" by (rule mset_eq_setD)
  then show ?thesis by (auto simp: uids_def)
qed

lemma ListMachines_distinct:
  "distinct (map m_uid (machines r)) \<Longrightarrow> ListMachines r ns sel = Inr ms
   \<Longrightarrow> distinct (map m_uid ms)"
  by (auto simp: ListMachines_def distinct_map_filter split: if_splits)

subsection \<open>The four selections of \<open>prepareMachineBinding\<close>\<close>

text \<open>
  A successful run is the chain of the four selections, each on the pool the one before
  left over, followed by the Create of the binding that lists them in that order.
\<close>

lemma prepareMachineBinding_chain:
  assumes "prepareMachineBinding r cluster = (None, r')"
  shows "\<exists>ms0 selM p1 selW p2 selE p3 selL p4 mb.
     labelSelectMachines r (c_namespace cluster) (MasterRequire (Spec cluster)) = Inr ms0
   \<and> filterMachines r (c_namespace cluster) (MasterRequire (Spec cluster)) ms0 = Inr (selM, p1)
   \<and> filterMachines r (c_namespace cluster) (WorkerRequire (Spec cluster)) p1 = Inr (selW, p2)
   \<and> filterMachines r (c_namespace cluster) (EtcdRequire (Spec cluster)) p2 = Inr (selE, p3)
   \<and> filterMachines r (c_namespace cluster) (LoadbalanceRequires (Spec cluster)) p3 = Inr (selL, p4)
   \<and> Usages mb = map (\<lambda>m. (m_uid m, UsageMaster)) selM @ map (\<lambda>m. (m_uid m, UsageWorker)) selW
        @ map (\<lambda>m. (m_uid m, UsageEtcd)) selE @ map (\<lambda>m. (m_uid m, UsageLoadbalance)) selL
   \<and> machinebindings r' = machinebindings r @ [mb]
   \<and> calls r' = calls r @ [CreateMachineBinding mb]"
proof -
  let ?ns = "c_namespace cluster"
  obtain ms0 where A: "labelSelectMachines r ?ns (MasterRequire (Spec cluster)) = Inr ms0"
    using assms by (cases "labelSelectMachines r ?ns (MasterRequire (Spec cluster))")
      (simp_all add: prepareMachineBinding_def)
  obtain selM p1 where B: "filterMachines r ?ns (MasterRequire (Spec cluster)) ms0 = Inr (selM, p1)"
    using assms A by (cases "filterMachines r ?ns (MasterRequire (Spec cluster)) ms0")
      (auto simp: prepareMachineBinding_def)
  obtain selW p2 where C: "filterMachines r ?ns (WorkerRequire (Spec cluster)) p1 = Inr (selW, p2)"
    using assms A B by (cases "filterMachines r ?ns (WorkerRequire (Spec cluster)) p1")
      (auto simp: prepareMachineBinding_def Let_def)
  obtain selE p3 where D: "filterMachines r ?ns (EtcdRequire (Spec cluster)) p2 = Inr (selE, p3)"
    using assms A B C by (cases "filterMachines r ?ns (EtcdRequire (Spec cluster)) p2")
      (auto simp: prepareMachineBinding_def Let_def)
  obtain selL p4 where E: "filterMachines r ?ns (LoadbalanceRequires (Spec cluster)) p3 = Inr (selL, p4)"
    using assms A B C D by (cases "filterMachines r ?ns (LoadbalanceRequires (Spec cluster)) p3")
      (auto simp: prepareMachineBinding_def Let_def)
  obtain mb1 l1 where F1: "addSelected UsageMaster selM (emptyMachineBinding, []) = (mb1, l1)"
    by (cases "addSelected UsageMaster selM (emptyMachineBinding, [])") auto
  obtain mb2 l2 where F2: "addSelected UsageWorker selW (mb1, l1) = (mb2, l2)"
    by (cases "addSelected UsageWorker selW (mb1, l1)") auto
  obtain mb3 l3 where F3: "addSelected UsageEtcd selE (mb2, l2) = (mb3, l3)"
    by (cases "addSelected UsageEtcd selE (mb2, l2)") auto
  obtain mb4 l4 where F4: "addSelected UsageLoadbalance selL (mb3, l3) = (mb4, l4)"
    by (cases "addSelected UsageLoadbalance selL (mb3, l3)") auto
  let ?mb = "mb4\<lparr>mb_name := MachineBindingFormat (c_name cluster), mb_labels := l4,
                  mb_namespace := EggoNamespaceName\<rparr>"
  have G: "CreateMachineBindingObj r ?mb = (None, r')"
    using assms A B C D E F1 F2 F3 F4 by (simp add: prepareMachineBinding_def Let_def)
  have U: "Usages ?mb = map (\<lambda>m. (m_uid m, UsageMaster)) selM @ map (\<lambda>m. (m_uid m, UsageWorker)) selW
        @ map (\<lambda>m. (m_uid m, UsageEtcd)) selE @ map (\<lambda>m. (m_uid m, UsageLoadbalance)) selL"
    using addSelected_Usages[OF F1] addSelected_Usages[OF F2] addSelected_Usages[OF F3]
      addSelected_Usages[OF F4] by (simp add: emptyMachineBinding_def)
  have H: "machinebindings r' = machinebindings r @ [?mb] \<and> calls r' = calls r @ [CreateMachineBinding ?mb]"
    using G by (auto simp: CreateMachineBindingObj_def Let_def split: if_splits)
  show ?thesis
    apply (rule exI[of _ ms0], rule exI[of _ selM], rule exI[of _ p1], rule exI[of _ selW],
           rule exI[of _ p2], rule exI[of _ selE], rule exI[of _ p3], rule exI[of _ selL],
           rule exI[of _ p4], rule exI[of _ ?mb])
    using A B C D E U H by simp
qed

text \<open>A failed run stores no binding, whichever step failed.\<close>

lemma CreateMachineBindingObj_error:
  "CreateMachineBindingObj r mb = (Some e, r') \<Longrightarrow> machinebindings r' = machinebindings r"
  by (auto simp: CreateMachineBindingObj_def Let_def split: if_splits)

lemma prepareMachineBinding_error:
  assumes "prepareMachineBinding r cluster = (Some e, r')"
  shows "machinebindings r' = machinebindings r"
  using assms unfolding prepareMachineBinding_def Let_def
  by (auto split: sum.splits prod.splits dest: CreateMachineBindingObj_error)

lemma scenario_allocation:
  "prepareMachineBinding poolStore scenarioCluster = (None, allocatedStore)"
  by (simp add: prepareMachineBinding_def labelSelectMachines_def filterMachines_def
      bindingForUsage_def AddMachine_def emptyMachineBinding_def Let_def
      example_defs const_defs store_defs)

text \<open>
  Claim C1. Whenever \<open>prepareMachineBinding\<close> returns without error, in a store whose
  machines have pairwise different UIDs, the run is the four selections in the order
  master, worker, etcd, load balancer: the master selection is taken from the machines
  listed for the master requirement, and each later selection from the pool the one
  before left. The binding created lists the selections in that order under their
  usages, no UID occurs in it twice, no machine selected for a role is in a pool passed
  to a later role, and the four selections are pairwise disjoint.
\<close>

theorem C1_roles_in_order_and_disjoint:
  assumes ok: "prepareMachineBinding r cluster = (None, r')"
      and dist: "distinct (map m_uid (machines r))"
  shows "\<exists>ms0 selM p1 selW p2 selE p3 selL p4 mb.
     labelSelectMachines r (c_namespace cluster) (MasterRequire (Spec cluster)) = Inr ms0
   \<and> filterMachines r (c_namespace cluster) (MasterRequire (Spec cluster)) ms0 = Inr (selM, p1)
   \<and> filterMachines r (c_namespace cluster) (WorkerRequire (Spec cluster)) p1 = Inr (selW, p2)
   \<and> filterMachines r (c_namespace cluster) (EtcdRequire (Spec cluster)) p2 = Inr (selE, p3)
   \<and> filterMachines r (c_namespace cluster) (LoadbalanceRequires (Spec cluster)) p3 = Inr (selL, p4)
   \<and> machinebindings r' = machinebindings r @ [mb]
   \<and> Usages mb = map (\<lambda>m. (m_uid m, UsageMaster)) selM @ map (\<lambda>m. (m_uid m, UsageWorker)) selW
        @ map (\<lambda>m. (m_uid m, UsageEtcd)) selE @ map (\<lambda>m. (m_uid m, UsageLoadbalance)) selL
   \<and> distinct (map fst (Usages mb))
   \<and> uids selM \<inter> uids p1 = {} \<and> uids selM \<inter> uids p2 = {} \<and> uids selM \<inter> uids p3 = {}
   \<and> uids selW \<inter> uids p2 = {} \<and> uids selW \<inter> uids p3 = {} \<and> uids selE \<inter> uids p3 = {}
   \<and> uids selM \<inter> uids selW = {} \<and> uids selM \<inter> uids selE = {} \<and> uids selM \<inter> uids selL = {}
   \<and> uids selW \<inter> uids selE = {} \<and> uids selW \<inter> uids selL = {} \<and> uids selE \<inter> uids selL = {}"
proof -
  from prepareMachineBinding_chain[OF ok]
  obtain ms0 selM p1 selW p2 selE p3 selL p4 mb where
    A: "labelSelectMachines r (c_namespace cluster) (MasterRequire (Spec cluster)) = Inr ms0"
    and B: "filterMachines r (c_namespace cluster) (MasterRequire (Spec cluster)) ms0 = Inr (selM, p1)"
    and C: "filterMachines r (c_namespace cluster) (WorkerRequire (Spec cluster)) p1 = Inr (selW, p2)"
    and D: "filterMachines r (c_namespace cluster) (EtcdRequire (Spec cluster)) p2 = Inr (selE, p3)"
    and E: "filterMachines r (c_namespace cluster) (LoadbalanceRequires (Spec cluster)) p3 = Inr (selL, p4)"
    and U: "Usages mb = map (\<lambda>m. (m_uid m, UsageMaster)) selM @ map (\<lambda>m. (m_uid m, UsageWorker)) selW
        @ map (\<lambda>m. (m_uid m, UsageEtcd)) selE @ map (\<lambda>m. (m_uid m, UsageLoadbalance)) selL"
    and H: "machinebindings r' = machinebindings r @ [mb]"
    by (elim exE conjE)
  have d0: "distinct (map m_uid ms0)"
    using A dist by (auto simp: labelSelectMachines_def intro: ListMachines_distinct)
  have m1: "mset (selM @ p1) = mset ms0" using filterMachines_mset[OF B] by simp
  have m2: "mset (selW @ p2) = mset p1" using filterMachines_mset[OF C] by simp
  have m3: "mset (selE @ p3) = mset p2" using filterMachines_mset[OF D] by simp
  have m4: "mset (selL @ p4) = mset p3" using filterMachines_mset[OF E] by simp
  have "mset (selM @ selW @ selE @ selL @ p4) = mset ms0"
    using m1 m2 m3 m4 by (simp add: ac_simps)
  then have dAll: "distinct (map m_uid (selM @ selW @ selE @ selL @ p4))"
    using d0 distinct_uid_mset by blast
  have s3: "uids p3 = uids selL \<union> uids p4" using m4 by (rule uids_mset)
  have s2: "uids p2 = uids selE \<union> uids p3" using m3 by (rule uids_mset)
  have s1: "uids p1 = uids selW \<union> uids p2" using m2 by (rule uids_mset)
  have dU: "distinct (map fst (Usages mb))"
    using dAll by (auto simp: U o_def)
  have disj: "uids selM \<inter> uids selW = {}" "uids selM \<inter> uids selE = {}" "uids selM \<inter> uids selL = {}"
     "uids selM \<inter> uids p4 = {}"
     "uids selW \<inter> uids selE = {}" "uids selW \<inter> uids selL = {}" "uids selW \<inter> uids p4 = {}"
     "uids selE \<inter> uids selL = {}" "uids selE \<inter> uids p4 = {}"
    using dAll by (auto simp: uids_def)
  have pools: "uids selM \<inter> uids p1 = {}" "uids selM \<inter> uids p2 = {}" "uids selM \<inter> uids p3 = {}"
     "uids selW \<inter> uids p2 = {}" "uids selW \<inter> uids p3 = {}" "uids selE \<inter> uids p3 = {}"
    using disj s1 s2 s3 by auto
  show ?thesis
    apply (rule exI[of _ ms0], rule exI[of _ selM], rule exI[of _ p1], rule exI[of _ selW],
           rule exI[of _ p2], rule exI[of _ selE], rule exI[of _ p3], rule exI[of _ selL],
           rule exI[of _ p4], rule exI[of _ mb])
    using A B C D E H U dU disj pools by simp
qed

text \<open>
  Claim C1 on scenario A: the run on the pool of three machines succeeds, the UIDs of
  the pool are pairwise different, and the statement holds of that run.
\<close>

theorem C1_witness:
  "prepareMachineBinding poolStore scenarioCluster = (None, allocatedStore)
   \<and> distinct (map m_uid (machines poolStore))
   \<and> (\<exists>ms0 selM p1 selW p2 selE p3 selL p4 mb.
     labelSelectMachines poolStore (c_namespace scenarioCluster) (MasterRequire (Spec scenarioCluster)) = Inr ms0
   \<and> filterMachines poolStore (c_namespace scenarioCluster) (MasterRequire (Spec scenarioCluster)) ms0 = Inr (selM, p1)
   \<and> filterMachines poolStore (c_namespace scenarioCluster) (WorkerRequire (Spec scenarioCluster)) p1 = Inr (selW, p2)
   \<and> filterMachines poolStore (c_namespace scenarioCluster) (EtcdRequire (Spec scenarioCluster)) p2 = Inr (selE, p3)
   \<and> filterMachines poolStore (c_namespace scenarioCluster) (LoadbalanceRequires (Spec scenarioCluster)) p3 = Inr (selL, p4)
   \<and> machinebindings allocatedStore = machinebindings poolStore @ [mb]
   \<and> Usages mb = map (\<lambda>m. (m_uid m, UsageMaster)) selM @ map (\<lambda>m. (m_uid m, UsageWorker)) selW
        @ map (\<lambda>m. (m_uid m, UsageEtcd)) selE @ map (\<lambda>m. (m_uid m, UsageLoadbalance)) selL
   \<and> distinct (map fst (Usages mb))
   \<and> uids selM \<inter> uids p1 = {} \<and> uids selM \<inter> uids p2 = {} \<and> uids selM \<inter> uids p3 = {}
   \<and> uids selW \<inter> uids p2 = {} \<and> uids selW \<inter> uids p3 = {} \<and> uids selE \<inter> uids p3 = {}
   \<and> uids selM \<inter> uids selW = {} \<and> uids selM \<inter> uids selE = {} \<and> uids selM \<inter> uids selL = {}
   \<and> uids selW \<inter> uids selE = {} \<and> uids selW \<inter> uids selL = {} \<and> uids selE \<inter> uids selL = {})"
proof -
  have d: "distinct (map m_uid (machines poolStore))"
    by (simp add: example_defs)
  show ?thesis
    by (intro conjI scenario_allocation d
          C1_roles_in_order_and_disjoint[OF scenario_allocation d])
qed

text \<open>
  Claim C2, the code at a store it can reach. Two bindings carry the label node1: the
  first holds an earlier machine of that name, the second holds machine9 under its UID.
  \<open>filterMachines\<close> reads the first item of the listing only, does not find the UID
  there, and selects machine9 although a stored binding has it bound: with one machine
  required and no unbound candidate it returns a selection instead of the error.
\<close>

theorem C2_selects_bound_machine:
  "liveBinding \<in> set (machinebindings reusedNameStore)
   \<and> map_of (Usages liveBinding) (m_uid machine9) = Some UsageMaster
   \<and> filterMachines reusedNameStore ''default'' (require 1) [machine9] = Inr ([machine9], [])"
  by (simp add: filterMachines_def bindingForUsage_def Let_def example_defs const_defs store_defs)

text \<open>
  Claim C6 as the code has it. With master 1, worker 2, etcd and load balancer at most 0,
  over a listing of exactly three machines that the skip test lets through, and the name
  of the binding free, the allocation succeeds: the first listed machine is bound as
  master, the other two as workers, and these three entries are the whole binding. The
  etcd requirement selects nothing (its selection on the pool left over, which is empty,
  is empty): no machine is recorded under the etcd usage.
\<close>

theorem C6_scenario_A:
  assumes pool: "labelSelectMachines r (c_namespace cluster) (MasterRequire (Spec cluster))
                   = Inr [a, b, c]"
      and free: "\<not> bindingForUsage r a" "\<not> bindingForUsage r b" "\<not> bindingForUsage r c"
      and nums: "Number (MasterRequire (Spec cluster)) = 1"
                "Number (WorkerRequire (Spec cluster)) = 2"
                "Number (EtcdRequire (Spec cluster)) \<le> 0"
                "Number (LoadbalanceRequires (Spec cluster)) \<le> 0"
      and fresh: "lookupObj mbKey (machinebindings r)
                    (EggoNamespaceName, MachineBindingFormat (c_name cluster)) = None"
      and served: "\<not> fault r (ReqCreate KMachineBinding
                    (EggoNamespaceName, MachineBindingFormat (c_name cluster)))"
  shows "\<exists>r' mb. prepareMachineBinding r cluster = (None, r')
           \<and> machinebindings r' = machinebindings r @ [mb]
           \<and> Usages mb = [(m_uid a, UsageMaster), (m_uid b, UsageWorker), (m_uid c, UsageWorker)]
           \<and> filterMachines r (c_namespace cluster) (EtcdRequire (Spec cluster)) [] = Inr ([], [])"
proof -
  let ?ns = "c_namespace cluster"
  have M: "filterMachines r ?ns (MasterRequire (Spec cluster)) [a, b, c] = Inr ([a], [b, c])"
    using free nums by (simp add: filterMachines_def Let_def)
  have W: "filterMachines r ?ns (WorkerRequire (Spec cluster)) [b, c] = Inr ([b, c], [])"
    using free nums by (simp add: filterMachines_def Let_def)
  have E: "filterMachines r ?ns (EtcdRequire (Spec cluster)) [] = Inr ([], [])"
    using nums by (simp add: filterMachines_def)
  have L: "filterMachines r ?ns (LoadbalanceRequires (Spec cluster)) [] = Inr ([], [])"
    using nums by (simp add: filterMachines_def)
  let ?mb = "\<lparr>mb_namespace = EggoNamespaceName, mb_name = MachineBindingFormat (c_name cluster),
      mb_labels = AList.update (m_name c) '''' (AList.update (m_name b) ''''
                    (AList.update (m_name a) '''' [])),
      Usages = [(m_uid a, UsageMaster), (m_uid b, UsageWorker), (m_uid c, UsageWorker)],
      Conditions = []\<rparr>"
  have P: "prepareMachineBinding r cluster = CreateMachineBindingObj r ?mb"
    using pool M W E L
    by (simp add: prepareMachineBinding_def Let_def AddMachine_def emptyMachineBinding_def)
  have C: "CreateMachineBindingObj r ?mb
            = (None, r\<lparr>calls := calls r @ [CreateMachineBinding ?mb],
                        machinebindings := machinebindings r @ [?mb]\<rparr>)"
    using fresh served by (simp add: CreateMachineBindingObj_def Let_def mbKey_def)
  show ?thesis
    apply (rule exI[of _ "r\<lparr>calls := calls r @ [CreateMachineBinding ?mb],
                        machinebindings := machinebindings r @ [?mb]\<rparr>"], rule exI[of _ ?mb])
    using P C E by simp
qed

text \<open>Claim C6 as the code has it, on scenario A itself.\<close>

theorem C6_scenario_A_witness:
  "labelSelectMachines poolStore (c_namespace scenarioCluster) (MasterRequire (Spec scenarioCluster))
     = Inr [machine1, machine2, machine3]
   \<and> \<not> bindingForUsage poolStore machine1 \<and> \<not> bindingForUsage poolStore machine2
   \<and> \<not> bindingForUsage poolStore machine3
   \<and> Number (MasterRequire (Spec scenarioCluster)) = 1
   \<and> Number (WorkerRequire (Spec scenarioCluster)) = 2
   \<and> Number (EtcdRequire (Spec scenarioCluster)) \<le> 0
   \<and> Number (LoadbalanceRequires (Spec scenarioCluster)) \<le> 0
   \<and> (\<exists>r' mb. prepareMachineBinding poolStore scenarioCluster = (None, r')
           \<and> machinebindings r' = machinebindings poolStore @ [mb]
           \<and> Usages mb = [(m_uid machine1, UsageMaster), (m_uid machine2, UsageWorker),
                           (m_uid machine3, UsageWorker)]
           \<and> filterMachines poolStore (c_namespace scenarioCluster)
                (EtcdRequire (Spec scenarioCluster)) [] = Inr ([], []))"
proof -
  have pool: "labelSelectMachines poolStore (c_namespace scenarioCluster)
      (MasterRequire (Spec scenarioCluster)) = Inr [machine1, machine2, machine3]"
    by (simp add: labelSelectMachines_def example_defs store_defs)
  have free: "\<not> bindingForUsage poolStore machine1" "\<not> bindingForUsage poolStore machine2"
      "\<not> bindingForUsage poolStore machine3"
    by (simp_all add: bindingForUsage_def example_defs store_defs)
  have nums: "Number (MasterRequire (Spec scenarioCluster)) = 1"
      "Number (WorkerRequire (Spec scenarioCluster)) = 2"
      "Number (EtcdRequire (Spec scenarioCluster)) \<le> 0"
      "Number (LoadbalanceRequires (Spec scenarioCluster)) \<le> 0"
    by (simp_all add: example_defs)
  have fresh: "lookupObj mbKey (machinebindings poolStore)
      (EggoNamespaceName, MachineBindingFormat (c_name scenarioCluster)) = None"
    by (simp add: example_defs store_defs)
  have served: "\<not> fault poolStore (ReqCreate KMachineBinding
      (EggoNamespaceName, MachineBindingFormat (c_name scenarioCluster)))"
    by (simp add: example_defs)
  show ?thesis
    by (intro conjI pool free nums C6_scenario_A[OF pool free nums fresh served])
qed

text \<open>
  Claim C6 as stated fails on scenario A: the allocation succeeds and stores the binding
  of three entries, machine1 is in it as master, and it is not in it under the etcd
  usage; no entry of the binding has that usage.
\<close>

theorem C6_counterexample:
  "prepareMachineBinding poolStore scenarioCluster = (None, allocatedStore)
   \<and> machinebindings allocatedStore = [scenarioBinding]
   \<and> (m_uid machine1, UsageMaster) \<in> set (Usages scenarioBinding)
   \<and> (m_uid machine1, UsageEtcd) \<notin> set (Usages scenarioBinding)
   \<and> UsageEtcd \<notin> snd ` set (Usages scenarioBinding)"
  using scenario_allocation by (simp add: example_defs)
section \<open>The finish classifier\<close>

lemma jobIsFinishedLoop_find:
  "jobIsFinishedLoop n cs =
     (case find terminalTrue cs of
        None \<Rightarrow> (False, None)
      | Some c \<Rightarrow>
          if c_type c = JobComplete then (True, None)
          else (True, Some (Errorf (''job: '' @ n @ '' failed: '' @ c_reason c))))"
  by (induction cs) (auto simp: terminalTrue_def)

text \<open>
  Claim C5 as the code has it. The result of \<open>jobIsFinished\<close> is decided by the first
  condition, in the order of the list, that has status true and type Complete or Failed:
  (true, nil) if its type is Complete, (true, the error "job: NAME failed: REASON" with
  the name of the Job and the reason of that condition) if its type is Failed, and
  (false, nil) if the list has no such condition. A condition whose status is not true is
  passed over, whatever its type.
\<close>

theorem C5_first_terminal_condition_decides:
  "jobIsFinished job =
     (case find terminalTrue (j_conditions job) of
        None \<Rightarrow> (False, None)
      | Some c \<Rightarrow>
          if c_type c = JobComplete then (True, None)
          else (True, Some (Errorf (''job: '' @ j_name job @ '' failed: '' @ c_reason c))))"
  unfolding jobIsFinished_def by (rule jobIsFinishedLoop_find)

text \<open>
  Claim C5 as stated fails where a Failed condition with status true precedes a Complete
  one with status true: some condition is Complete with status true, and the result is
  not (true, nil).
\<close>

theorem C5_counterexample:
  "c_type (j_conditions job_failed_then_complete ! 1) = JobComplete
   \<and> c_status (j_conditions job_failed_then_complete ! 1) = ConditionTrue
   \<and> jobIsFinished job_failed_then_complete \<noteq> (True, None)"
  by (simp add: job_failed_then_complete_def jobIsFinished_def createEggoJobConfig_def)

section \<open>Runs on the concrete stores\<close>

lemma eval_monitor_complete:
  "checkAndLogClusterJob (monitoringStore [deployJob [completeCondition]]) monitoringCluster
     = (True, None, monitoringCluster, monitoringStore [deployJob [completeCondition]])"
  by (simp add: all_defs)

lemma eval_reconcile_failed:
  "reconcile (monitoringStore [deployJob [failedCondition]]) monitoringCluster
     = (\<lparr>Requeue = False, RequeueAfter = Second * 5\<rparr>,
        Some (Errorf ''job: c1-create-job failed: exit 1''),
        monitoringCluster\<lparr>Status := deployedStatus\<lparr>JobRef := None,
          JobHistorys := [\<lparr>h_Name = ''c1-create-job'', h_StartTime = 100, h_FinishTime = None,
                           h_Message = ''job: c1-create-job failed: exit 1''\<rparr>]\<rparr>\<rparr>,
        (monitoringStore [deployJob [failedCondition]])
          \<lparr>calls := [DeleteJob (EggoNamespaceName, ''c1-create-job'') None], jobs := []\<rparr>)"
  by (simp add: all_defs)

lemma eval_Reconcile_failed:
  "Reconcile (monitoringStore [deployJob [failedCondition]]) (cKey monitoringCluster)
     = (\<lparr>Requeue = False, RequeueAfter = Second * 5\<rparr>,
        Some (Errorf ''job: c1-create-job failed: exit 1''),
        (monitoringStore [deployJob [failedCondition]])
          \<lparr>calls := [DeleteJob (EggoNamespaceName, ''c1-create-job'') None], jobs := []\<rparr>)"
  by (simp add: all_defs)

lemma eval_delete_running:
  "reconcileDelete (deletingStore [deployJob []]) deletingCluster
     = (\<lparr>Requeue = False, RequeueAfter = Second * 5\<rparr>, None, deletingCluster,
        (deletingStore [deployJob []])
          \<lparr>calls := [DeleteJob (EggoNamespaceName, ''c1-create-job'') (Some 60)], jobs := []\<rparr>)"
  by (simp add: all_defs)

lemma eval_delete_gone:
  "reconcileDelete (deletingStore []) deletingCluster
     = (\<lparr>Requeue = False, RequeueAfter = Second * 5\<rparr>, None,
        deletingCluster\<lparr>Status := deployedStatus\<lparr>HasCluster := True, JobRef := None\<rparr>\<rparr>,
        (deletingStore [])
          \<lparr>calls := [CreateJob ((cleanupJob [])\<lparr>j_creationTimestamp := 0\<rparr>)],
           jobs := [(cleanupJob [])\<lparr>j_creationTimestamp := 0\<rparr>]\<rparr>)"
  by (simp add: all_defs)

lemma eval_delete_cleaned:
  "reconcileDelete (deletingStore [cleanupJob [completeCondition]]) deletingCluster
     = (\<lparr>Requeue = True, RequeueAfter = 0\<rparr>, None,
        deletingCluster\<lparr>Status := deployedStatus\<lparr>HasCluster := False, JobRef := None,
          JobHistorys := [\<lparr>h_Name = ''c1-delete-job'', h_StartTime = 200, h_FinishTime = None,
                           h_Message = ''success''\<rparr>]\<rparr>\<rparr>,
        (deletingStore [cleanupJob [completeCondition]])
          \<lparr>calls := [DeleteJob (EggoNamespaceName, ''c1-delete-job'') None,
                     DeleteMachineBinding (EggoNamespaceName, ''machinebind-c1'')],
           jobs := [], machinebindings := []\<rparr>)"
  by (simp add: all_defs)

lemma eval_teardown:
  "reconcileDelete teardownStore teardownCluster
     = (Result0, None,
        teardownCluster\<lparr>Status := (Status teardownCluster)\<lparr>
          PackagePersistentVolumeClaimRef := None, Deleted := True\<rparr>\<rparr>,
        teardownStore\<lparr>calls := [UpdateClusterStatus (teardownCluster\<lparr>Status :=
            (Status teardownCluster)\<lparr>PackagePersistentVolumeClaimRef := None, Deleted := True\<rparr>\<rparr>)],
          clusters := [teardownCluster\<lparr>Status := (Status teardownCluster)\<lparr>
            PackagePersistentVolumeClaimRef := None, Deleted := True\<rparr>\<rparr>]\<rparr>)"
  by (simp add: all_defs)

lemma eval_Reconcile_running:
  "Reconcile (deletingStore [deployJob []]) (cKey deletingCluster)
     = (\<lparr>Requeue = False, RequeueAfter = Second * 5\<rparr>, None,
        (deletingStore [deployJob []])
          \<lparr>calls := [DeleteJob (EggoNamespaceName, ''c1-create-job'') (Some 60),
                     UpdateCluster (deletingCluster\<lparr>Finalizers := []\<rparr>)],
           jobs := [], clusters := [deletingCluster\<lparr>Finalizers := []\<rparr>]\<rparr>)"
  by (simp add: all_defs)

lemma eval_Reconcile_awaiting:
  "Reconcile awaitingSecretStore (cKey awaitingSecretCluster)
     = (\<lparr>Requeue = False, RequeueAfter = Second * 30\<rparr>, Some NotFound, awaitingSecretStore)"
  by (simp add: all_defs)

section \<open>The monitor and the creation path\<close>

text \<open>
  Claim C4, the code on a Job that completed. The Job of cluster c1 carries the condition
  Complete with status true, so the classifier reports it finished without error;
  \<open>checkAndLogClusterJob\<close> returns the Cluster as it was, with no entry added to
  \<open>JobHistorys\<close>, and after the whole pass of Reconcile the stored Cluster has
  \<open>HasCluster\<close> set and an empty history.
\<close>

theorem C4_success_not_recorded:
  "jobIsFinished (deployJob [completeCondition]) = (True, None)
   \<and> checkAndLogClusterJob (monitoringStore [deployJob [completeCondition]]) monitoringCluster
       = (True, None, monitoringCluster, monitoringStore [deployJob [completeCondition]])
   \<and> JobHistorys (Status monitoringCluster) = []
   \<and> map (\<lambda>c. (HasCluster (Status c), JobHistorys (Status c)))
        (clusters (snd (snd (Reconcile (monitoringStore [deployJob [completeCondition]])
                               (cKey monitoringCluster)))))
       = [(True, [])]"
proof -
  have "jobIsFinished (deployJob [completeCondition]) = (True, None)"
    by (simp add: all_defs)
  moreover have "JobHistorys (Status monitoringCluster) = []"
    by (simp add: all_defs)
  moreover have "map (\<lambda>c. (HasCluster (Status c), JobHistorys (Status c)))
        (clusters (snd (snd (Reconcile (monitoringStore [deployJob [completeCondition]])
                               (cKey monitoringCluster)))))
       = [(True, [])]"
    by (simp add: all_defs)
  ultimately show ?thesis using eval_monitor_complete by simp
qed

text \<open>
  On a Job that failed, the monitor deletes the Job, adds the entry and clears
  \<open>JobRef\<close> in the Cluster it was handed, and returns the error. With that error
  neither \<open>reconcile\<close> nor the deferred function of Reconcile writes the Cluster:
  the stored Cluster still refers to the deleted Job and has no history.
\<close>

theorem failed_work_item_record_not_persisted:
  "Reconcile (monitoringStore [deployJob [failedCondition]]) (cKey monitoringCluster)
     = (\<lparr>Requeue = False, RequeueAfter = Second * 5\<rparr>,
        Some (Errorf ''job: c1-create-job failed: exit 1''),
        (monitoringStore [deployJob [failedCondition]])
          \<lparr>calls := [DeleteJob (EggoNamespaceName, ''c1-create-job'') None], jobs := []\<rparr>)
   \<and> clusters ((monitoringStore [deployJob [failedCondition]])
          \<lparr>calls := [DeleteJob (EggoNamespaceName, ''c1-create-job'') None], jobs := []\<rparr>)
       = [monitoringCluster]
   \<and> JobRef (Status monitoringCluster) = Some (EggoNamespaceName, ''c1-create-job'')
   \<and> JobHistorys (Status monitoringCluster) = []"
  using eval_Reconcile_failed by (simp add: all_defs)

subsection \<open>Which references the creation path changes\<close>

lemma prepareSecret_status:
  "prepareSecret r c = (err, c') \<Longrightarrow>
     \<exists>ref. Status c' = Status c \<or> Status c' = (Status c)\<lparr>MachineLoginSecretRef := ref\<rparr>"
  unfolding prepareSecret_def Let_def
  by (auto split: if_splits sum.splits prod.splits simp: setStatus_def)

lemma preparePVCRef_status:
  "preparePVCRef r c = (err, c') \<Longrightarrow>
     \<exists>ref. Status c' = Status c \<or> Status c' = (Status c)\<lparr>PackagePersistentVolumeClaimRef := ref\<rparr>"
  unfolding preparePVCRef_def Let_def
  by (auto split: if_splits sum.splits prod.splits simp: setStatus_def)

lemma prepareEggoConfig_status:
  "prepareEggoConfig r c = (res, err, c', r') \<Longrightarrow>
     \<exists>ref. Status c' = Status c \<or> Status c' = (Status c)\<lparr>ConfigRef := ref\<rparr>"
  unfolding prepareEggoConfig_def Let_def
  by (auto split: if_splits sum.splits prod.splits simp: setStatus_def)

lemma prepareCreateClusterJob_status:
  "prepareCreateClusterJob r c = (err, c', r') \<Longrightarrow>
     \<exists>ref. Status c' = Status c \<or> Status c' = (Status c)\<lparr>JobRef := ref\<rparr>"
  unfolding prepareCreateClusterJob_def Let_def
  by (auto split: if_splits sum.splits prod.splits simp: setStatus_def)

lemma checkAndLogClusterJob_status:
  assumes "checkAndLogClusterJob r c = (finish, err, c', r')"
  shows "Status c' = Status c
       \<or> (\<exists>h job e. Status c' = (Status c)\<lparr>JobHistorys := JobHistorys (Status c) @ [h], JobRef := None\<rparr>
             \<and> refGet (GetJob r) (JobRef (Status c)) = Inr job
             \<and> jobIsFinished job = (True, Some e)
             \<and> DeleteJobObj r job None = (None, r'))"
  using assms unfolding checkAndLogClusterJob_def Let_def
  by (auto split: if_splits sum.splits prod.splits option.splits
      simp: setStatus_def appendHistory_def)

lemma reconcileCreate_refs:
  assumes "reconcileCreate r c = (res, err, c', r')"
  shows "refsKept (Status c) (Status c') \<and> jobRefKeptOrFailed r (Status c) (Status c')"
proof -
  consider (mb) "MachineBindingRef (Status c) = None"
    | (sec) "MachineBindingRef (Status c) \<noteq> None" "MachineLoginSecretRef (Status c) = None"
    | (pvc) "MachineBindingRef (Status c) \<noteq> None" "MachineLoginSecretRef (Status c) \<noteq> None"
        "PackagePersistentVolumeClaimRef (Status c) = None"
    | (cfg) "MachineBindingRef (Status c) \<noteq> None" "MachineLoginSecretRef (Status c) \<noteq> None"
        "PackagePersistentVolumeClaimRef (Status c) \<noteq> None" "ConfigRef (Status c) = None"
    | (job) "MachineBindingRef (Status c) \<noteq> None" "MachineLoginSecretRef (Status c) \<noteq> None"
        "PackagePersistentVolumeClaimRef (Status c) \<noteq> None" "ConfigRef (Status c) \<noteq> None"
        "JobRef (Status c) = None"
    | (mon) "MachineBindingRef (Status c) \<noteq> None" "MachineLoginSecretRef (Status c) \<noteq> None"
        "PackagePersistentVolumeClaimRef (Status c) \<noteq> None" "ConfigRef (Status c) \<noteq> None"
        "JobRef (Status c) \<noteq> None"
    by blast
  then show ?thesis
  proof cases
    case mb
    then have "\<exists>ref. Status c' = Status c \<or> Status c' = (Status c)\<lparr>MachineBindingRef := ref\<rparr>"
      using assms unfolding reconcileCreate_def
      by (auto split: if_splits sum.splits prod.splits simp: setStatus_def)
    with mb show ?thesis by (auto simp: refsKept_def jobRefKeptOrFailed_def)
  next
    case sec
    then obtain e c1 where P: "prepareSecret r c = (e, c1)" and "c' = c1"
      using assms unfolding reconcileCreate_def by (auto split: prod.splits simp del: not_None_eq)
    with prepareSecret_status[OF P] sec show ?thesis
      by (auto simp: refsKept_def jobRefKeptOrFailed_def)
  next
    case pvc
    then obtain e c1 where P: "preparePVCRef r c = (e, c1)" and "c' = c1"
      using assms unfolding reconcileCreate_def by (auto split: prod.splits simp del: not_None_eq)
    with preparePVCRef_status[OF P] pvc show ?thesis
      by (auto simp: refsKept_def jobRefKeptOrFailed_def)
  next
    case cfg
    then have P: "prepareEggoConfig r c = (res, err, c', r')"
      using assms unfolding reconcileCreate_def by (simp del: not_None_eq)
    with prepareEggoConfig_status[OF P] cfg show ?thesis
      by (auto simp: refsKept_def jobRefKeptOrFailed_def)
  next
    case job
    then obtain e c1 r1 where P: "prepareCreateClusterJob r c = (e, c1, r1)" and "c' = c1"
      using assms unfolding reconcileCreate_def by (auto split: prod.splits simp del: not_None_eq)
    with prepareCreateClusterJob_status[OF P] job show ?thesis
      by (auto simp: refsKept_def jobRefKeptOrFailed_def)
  next
    case mon
    obtain f e c1 r1 where P: "checkAndLogClusterJob r c = (f, e, c1, r1)"
      by (cases "checkAndLogClusterJob r c") auto
    have S: "Status c' = Status c1 \<or> Status c' = (Status c1)\<lparr>HasCluster := True,
        st_Message := ''create cluster job successfully''\<rparr>"
      using assms mon P unfolding reconcileCreate_def
      by (auto split: if_splits prod.splits option.splits simp: setStatus_def
          simp del: not_None_eq)
    from checkAndLogClusterJob_status[OF P] S show ?thesis
      by (auto simp: refsKept_def jobRefKeptOrFailed_def)
  qed
qed

lemma reconcile_refs:
  assumes "reconcile r c = (res, err, c', r')"
  shows "refsKept (Status c) (Status c') \<and> jobRefKeptOrFailed r (Status c) (Status c')"
proof (cases "IsCreated c")
  case True
  then have "c' = c" using assms by (simp add: reconcile_def)
  then show ?thesis by (simp add: refsKept_def jobRefKeptOrFailed_def)
next
  case False
  obtain res1 e1 c1 r1 where P: "reconcileCreate r c = (res1, e1, c1, r1)"
    by (cases "reconcileCreate r c") auto
  then have "c' = c1"
    using assms False by (auto simp: reconcile_def split: if_splits prod.splits)
  with reconcileCreate_refs[OF P] show ?thesis by simp
qed

text \<open>
  Claim C7 as the code has it. While the Cluster is not marked for deletion, a pass over
  it (registering the finalizer, or \<open>reconcile\<close>) leaves each of \<open>MachineBindingRef\<close>,
  \<open>MachineLoginSecretRef\<close>, \<open>PackagePersistentVolumeClaimRef\<close> and \<open>ConfigRef\<close>
  unchanged once it is set, and leaves a set \<open>JobRef\<close> unchanged except in one case:
  the monitor found the Job failed and deleted it, and then \<open>JobRef\<close> is nil. The
  statement is about the Cluster object the steps work on.
\<close>

theorem C7_creation_path_keeps_references:
  assumes "IsZero (DeletionTimestamp cluster)"
      and "reconcileBody r cluster = (res, err, cluster', r')"
  shows "refsKept (Status cluster) (Status cluster')
       \<and> jobRefKeptOrFailed r (Status cluster) (Status cluster')"
proof (cases "foundString (Finalizers cluster) ClusterFinalizerName")
  case True
  then have "reconcile r cluster = (res, err, cluster', r')"
    using assms by (simp add: reconcileBody_def)
  then show ?thesis by (rule reconcile_refs)
next
  case False
  then have "Status cluster' = Status cluster"
    using assms by (auto simp: reconcileBody_def AddFinalizer_def)
  then show ?thesis by (simp add: refsKept_def jobRefKeptOrFailed_def)
qed

text \<open>
  Claim C7 as the code has it, on the store with the failed Job: the four references
  are kept (the binding reference is the one set before) and \<open>JobRef\<close> falls under the
  exception.
\<close>

theorem C7_witness:
  "IsZero (DeletionTimestamp monitoringCluster)
   \<and> refsKept (Status monitoringCluster)
       (Status (fst (snd (snd (reconcileBody (monitoringStore [deployJob [failedCondition]])
                                 monitoringCluster)))))
   \<and> jobRefKeptOrFailed (monitoringStore [deployJob [failedCondition]]) (Status monitoringCluster)
       (Status (fst (snd (snd (reconcileBody (monitoringStore [deployJob [failedCondition]])
                                 monitoringCluster)))))
   \<and> MachineBindingRef (Status (fst (snd (snd (reconcileBody
        (monitoringStore [deployJob [failedCondition]]) monitoringCluster)))))
       = Some (EggoNamespaceName, ''machinebind-c1'')"
proof -
  have z: "IsZero (DeletionTimestamp monitoringCluster)"
    by (simp add: all_defs)
  have f: "foundString (Finalizers monitoringCluster) ClusterFinalizerName"
    by (simp add: all_defs)
  have e: "reconcileBody (monitoringStore [deployJob [failedCondition]]) monitoringCluster
     = (\<lparr>Requeue = False, RequeueAfter = Second * 5\<rparr>,
        Some (Errorf ''job: c1-create-job failed: exit 1''),
        monitoringCluster\<lparr>Status := deployedStatus\<lparr>JobRef := None,
          JobHistorys := [\<lparr>h_Name = ''c1-create-job'', h_StartTime = 100, h_FinishTime = None,
                           h_Message = ''job: c1-create-job failed: exit 1''\<rparr>]\<rparr>\<rparr>,
        (monitoringStore [deployJob [failedCondition]])
          \<lparr>calls := [DeleteJob (EggoNamespaceName, ''c1-create-job'') None], jobs := []\<rparr>)"
    using z f eval_reconcile_failed by (simp add: reconcileBody_def)
  have m: "MachineBindingRef (Status (fst (snd (snd (reconcileBody
        (monitoringStore [deployJob [failedCondition]]) monitoringCluster)))))
       = Some (EggoNamespaceName, ''machinebind-c1'')"
    by (simp add: e) (simp add: all_defs)
  show ?thesis
    using z m C7_creation_path_keeps_references[OF z e] by (simp add: e)
qed

text \<open>
  Claim C7 as stated fails in the creation path: the Cluster is not marked for deletion,
  its \<open>JobRef\<close> is set, the Job has failed, and after \<open>reconcile\<close> the \<open>JobRef\<close> of
  the Cluster is nil.
\<close>

theorem C7_counterexample:
  "IsZero (DeletionTimestamp monitoringCluster)
   \<and> JobRef (Status monitoringCluster) = Some (EggoNamespaceName, ''c1-create-job'')
   \<and> JobRef (Status (fst (snd (snd
        (reconcile (monitoringStore [deployJob [failedCondition]]) monitoringCluster))))) = None"
  by (simp add: eval_reconcile_failed) (simp add: all_defs)

text \<open>
  Claim C9 as the code has it. For a stored Cluster that is not marked for deletion, has
  the finalizer, is not created yet, has its binding reference set and its credential
  reference nil, and whose declared secret is absent from the store (the Get fails with
  NotFound): Reconcile makes no request that changes the store, so the status stays as
  it was, and it returns the result with \<open>RequeueAfter\<close> of 30 seconds together with
  the NotFound error.
\<close>

theorem C9_absent_credential:
  assumes "GetCluster r req = Inr cluster"
      and "IsZero (DeletionTimestamp cluster)"
      and "foundString (Finalizers cluster) ClusterFinalizerName"
      and "\<not> HasCluster (Status cluster)"
      and "MachineBindingRef (Status cluster) \<noteq> None"
      and "MachineLoginSecretRef (Status cluster) = None"
      and "fst (MachineLoginSecret (Spec cluster)) = ''''
           \<or> fst (MachineLoginSecret (Spec cluster)) = EggoNamespaceName"
      and "GetSecret r (EggoNamespaceName, snd (MachineLoginSecret (Spec cluster))) = Inl NotFound"
  shows "Reconcile r req
           = (\<lparr>Requeue = False, RequeueAfter = Second * 30\<rparr>, Some NotFound, r)"
proof -
  have "prepareSecret r cluster = (Some NotFound, cluster)"
    using assms(7,8) by (auto simp: prepareSecret_def Let_def)
  then have "reconcileCreate r cluster
      = (\<lparr>Requeue = False, RequeueAfter = Second * 30\<rparr>, Some NotFound, cluster, r)"
    using assms(5,6) by (simp add: reconcileCreate_def del: not_None_eq)
  then have "reconcileBody r cluster
      = (\<lparr>Requeue = False, RequeueAfter = Second * 30\<rparr>, Some NotFound, cluster, r)"
    using assms(2,3,4) by (simp add: reconcileBody_def reconcile_def IsCreated_def)
  then show ?thesis using assms(1) by (simp add: Reconcile_def)
qed

text \<open>Claim C9 as the code has it, on the store that lacks the secret of cluster c1.\<close>

theorem C9_absent_credential_witness:
  "GetCluster awaitingSecretStore (cKey awaitingSecretCluster) = Inr awaitingSecretCluster
   \<and> IsZero (DeletionTimestamp awaitingSecretCluster)
   \<and> foundString (Finalizers awaitingSecretCluster) ClusterFinalizerName
   \<and> \<not> HasCluster (Status awaitingSecretCluster)
   \<and> MachineBindingRef (Status awaitingSecretCluster) \<noteq> None
   \<and> MachineLoginSecretRef (Status awaitingSecretCluster) = None
   \<and> GetSecret awaitingSecretStore
        (EggoNamespaceName, snd (MachineLoginSecret (Spec awaitingSecretCluster))) = Inl NotFound
   \<and> Reconcile awaitingSecretStore (cKey awaitingSecretCluster)
       = (\<lparr>Requeue = False, RequeueAfter = Second * 30\<rparr>, Some NotFound, awaitingSecretStore)"
proof -
  have 1: "GetCluster awaitingSecretStore (cKey awaitingSecretCluster) = Inr awaitingSecretCluster"
    by (simp add: all_defs)
  have 2: "IsZero (DeletionTimestamp awaitingSecretCluster)" by (simp add: all_defs)
  have 3: "foundString (Finalizers awaitingSecretCluster) ClusterFinalizerName"
    by (simp add: all_defs)
  have 4: "\<not> HasCluster (Status awaitingSecretCluster)" by (simp add: all_defs)
  have 5: "MachineBindingRef (Status awaitingSecretCluster) \<noteq> None" by (simp add: all_defs)
  have 6: "MachineLoginSecretRef (Status awaitingSecretCluster) = None" by (simp add: all_defs)
  have 7: "fst (MachineLoginSecret (Spec awaitingSecretCluster)) = ''''
      \<or> fst (MachineLoginSecret (Spec awaitingSecretCluster)) = EggoNamespaceName"
    by (simp add: all_defs)
  have 8: "GetSecret awaitingSecretStore
      (EggoNamespaceName, snd (MachineLoginSecret (Spec awaitingSecretCluster))) = Inl NotFound"
    by (simp add: all_defs)
  show ?thesis
    by (intro conjI 1 2 3 4 5 6 8 C9_absent_credential[OF 1 2 3 4 5 6 7 8])
qed

text \<open>
  Claim C9 as stated fails on that store: the credential reference is nil, the secret is
  absent, and the error Reconcile returns is not nil.
\<close>

theorem C9_counterexample:
  "MachineLoginSecretRef (Status awaitingSecretCluster) = None
   \<and> GetSecret awaitingSecretStore
        (EggoNamespaceName, snd (MachineLoginSecret (Spec awaitingSecretCluster))) = Inl NotFound
   \<and> fst (snd (Reconcile awaitingSecretStore (cKey awaitingSecretCluster))) = Some NotFound"
  by (simp add: eval_Reconcile_awaiting) (simp add: all_defs)

section \<open>The deletion path\<close>

lemma DeleteJobObj_effect:
  "DeleteJobObj r job g = (e, r') \<Longrightarrow>
     calls r' = calls r @ [DeleteJob (jKey job) g] \<and> machinebindings r' = machinebindings r
     \<and> configmaps r' = configmaps r \<and> clusters r' = clusters r \<and> secrets r' = secrets r
     \<and> pvcs r' = pvcs r \<and> set (jobs r') \<subseteq> set (jobs r)"
  by (auto simp: DeleteJobObj_def Let_def split: if_splits)

lemma deleteStep5_HasCluster:
  "deleteStep5 r c = (res, err, c', r') \<Longrightarrow> HasCluster (Status c') = HasCluster (Status c)"
  by (auto simp: deleteStep5_def Let_def setStatus_def split: prod.splits option.splits)

lemma deleteStep4_HasCluster:
  "deleteStep4 r c = (res, err, c', r') \<Longrightarrow> HasCluster (Status c') = HasCluster (Status c)"
  unfolding deleteStep4_def
  by (auto split: option.splits sum.splits prod.splits dest!: deleteStep5_HasCluster
      simp: setStatus_def)

lemma deleteStep3_HasCluster:
  "deleteStep3 r c = (res, err, c', r') \<Longrightarrow> HasCluster (Status c') = HasCluster (Status c)"
  unfolding deleteStep3_def
  by (auto split: option.splits sum.splits prod.splits dest!: deleteStep4_HasCluster
      simp: setStatus_def)

lemma prepareDeleteClusterJob_HasCluster:
  "prepareDeleteClusterJob r c = (finish, err, c', r') \<Longrightarrow>
     HasCluster (Status c') = HasCluster (Status c)"
  unfolding prepareDeleteClusterJob_def Let_def
  by (auto split: sum.splits prod.splits option.splits if_splits
      simp: appendHistory_def setStatus_def)

lemma prepareDeleteClusterJob_finished:
  "prepareDeleteClusterJob r c = (True, None, c', r') \<Longrightarrow>
     \<exists>job. GetJob r (cleanupJobName c) = Inr job \<and> jobIsFinished job = (True, None)"
  unfolding prepareDeleteClusterJob_def Let_def cleanupJobName_def
  by (auto split: sum.splits prod.splits option.splits if_splits)

lemma deleteStep2_HasCluster:
  assumes "deleteStep2 r c = (res, err, c', r')"
      and "HasCluster (Status c)" and "\<not> HasCluster (Status c')"
  shows "\<exists>job. GetJob r (cleanupJobName c) = Inr job \<and> jobIsFinished job = (True, None)"
proof -
  obtain finish e c1 r1 where P: "prepareDeleteClusterJob r c = (finish, e, c1, r1)"
    by (cases "prepareDeleteClusterJob r c") auto
  have H1: "HasCluster (Status c1)"
    using prepareDeleteClusterJob_HasCluster[OF P] assms(2) by simp
  have "finish \<and> e = None"
  proof (rule ccontr)
    assume "\<not> (finish \<and> e = None)"
    then have "c' = c1"
      using assms(1,2) P by (auto simp: deleteStep2_def IsCreated_def split: if_splits)
    with H1 assms(3) show False by simp
  qed
  with P have "prepareDeleteClusterJob r c = (True, None, c1, r1)" by simp
  then show ?thesis by (rule prepareDeleteClusterJob_finished)
qed

lemma setStatus_JobRef_keys [simp]:
  "HasCluster (Status (setStatus (\<lambda>s. s\<lparr>JobRef := x\<rparr>) c)) = HasCluster (Status c)"
  "c_name (setStatus f c) = c_name c"
  by (simp_all add: setStatus_def)

text \<open>
  Claim C3. For every run of \<open>reconcileDelete\<close>:
  \<^item> if \<open>JobRef\<close> refers to a Job that the store still has, the run makes exactly one
    request that changes the store, the Delete of that Job, with a grace period of 60
    seconds if the Job is not finished and none otherwise; it returns a requeue after 5
    seconds and no error, the Cluster is unchanged, and bindings, config maps and
    clusters of the store are as before;
  \<^item> if the run issues a Create of a Job that was not issued before, then the Job that
    \<open>JobRef\<close> refers to, if any, is gone (its Get fails with NotFound);
  \<^item> if \<open>HasCluster\<close> is true before the run and false after it, then the Job that
    \<open>JobRef\<close> refers to, if any, is gone, and the store has the cleanup Job, which the
    classifier reports finished without error.
\<close>

theorem C3_deploy_work_item_deleted_first:
  assumes run: "reconcileDelete r cluster = (res, err, cluster', r')"
  shows "(\<forall>ref job. JobRef (Status cluster) = Some ref \<and> GetJob r ref = Inr job \<longrightarrow>
            res = \<lparr>Requeue = False, RequeueAfter = Second * 5\<rparr> \<and> err = None \<and> cluster' = cluster
            \<and> calls r' = calls r @ [DeleteJob (jKey job)
                                      (if fst (jobIsFinished job) then None else Some 60)]
            \<and> machinebindings r' = machinebindings r \<and> configmaps r' = configmaps r
            \<and> clusters r' = clusters r \<and> set (jobs r') \<subseteq> set (jobs r))
       \<and> (\<forall>j. CreateJob j \<in> set (calls r') \<and> CreateJob j \<notin> set (calls r) \<longrightarrow>
            (\<forall>ref. JobRef (Status cluster) = Some ref \<longrightarrow> GetJob r ref = Inl NotFound))
       \<and> (HasCluster (Status cluster) \<and> \<not> HasCluster (Status cluster') \<longrightarrow>
            (\<forall>ref. JobRef (Status cluster) = Some ref \<longrightarrow> GetJob r ref = Inl NotFound)
            \<and> (\<exists>job. GetJob r (cleanupJobName cluster) = Inr job
                      \<and> jobIsFinished job = (True, None)))"
proof (cases "JobRef (Status cluster)")
  case None
  then have S: "deleteStep2 r cluster = (res, err, cluster', r')"
    using run by (simp add: reconcileDelete_def)
  show ?thesis using None deleteStep2_HasCluster[OF S] by auto
next
  case (Some ref)
  show ?thesis
  proof (cases "GetJob r ref")
    case (Inr job)
    obtain e r1 where D: "DeleteJobObj r job (if fst (jobIsFinished job) then None else Some 60)
        = (e, r1)"
      by (cases "DeleteJobObj r job (if fst (jobIsFinished job) then None else Some 60)") auto
    have R: "res = \<lparr>Requeue = False, RequeueAfter = Second * 5\<rparr> \<and> err = None
        \<and> cluster' = cluster \<and> r' = r1"
      using run Some Inr D
      by (cases "jobIsFinished job") (auto simp: reconcileDelete_def split: if_splits)
    from DeleteJobObj_effect[OF D] R Some Inr show ?thesis by auto
  next
    case (Inl e)
    show ?thesis
    proof (cases "e = NotFound")
      case True
      then have S: "deleteStep2 r (setStatus (\<lambda>s. s\<lparr>JobRef := None\<rparr>) cluster)
          = (res, err, cluster', r')"
        using run Some Inl by (simp add: reconcileDelete_def IgnoreNotFound_def)
      have "HasCluster (Status cluster) \<and> \<not> HasCluster (Status cluster') \<longrightarrow>
          (\<exists>job. GetJob r (cleanupJobName cluster) = Inr job \<and> jobIsFinished job = (True, None))"
        using deleteStep2_HasCluster[OF S] by (simp add: cleanupJobName_def)
      then show ?thesis using Some Inl True by auto
    next
      case False
      then have "r' = r \<and> cluster' = cluster"
        using run Some Inl by (simp add: reconcileDelete_def IgnoreNotFound_def)
      then show ?thesis using Some Inl by auto
    qed
  qed
qed

text \<open>
  Claim C3 on cluster c1 marked for deletion, at three stores: with the deploy Job
  running (it is deleted with 60 seconds of grace, and nothing else is requested), with
  no Job (the cleanup Job is created, the deploy Job being gone), and with the cleanup
  Job complete (\<open>HasCluster\<close> becomes false).
\<close>

theorem C3_witness:
  "JobRef (Status deletingCluster) = Some (EggoNamespaceName, ''c1-create-job'')
   \<and> GetJob (deletingStore [deployJob []]) (EggoNamespaceName, ''c1-create-job'')
       = Inr (deployJob [])
   \<and> calls (snd (snd (snd (reconcileDelete (deletingStore [deployJob []]) deletingCluster))))
       = [DeleteJob (EggoNamespaceName, ''c1-create-job'') (Some 60)]
   \<and> CreateJob ((cleanupJob [])\<lparr>j_creationTimestamp := 0\<rparr>)
       \<in> set (calls (snd (snd (snd (reconcileDelete (deletingStore []) deletingCluster)))))
   \<and> GetJob (deletingStore []) (EggoNamespaceName, ''c1-create-job'') = Inl NotFound
   \<and> HasCluster (Status deletingCluster)
   \<and> \<not> HasCluster (Status (fst (snd (snd
         (reconcileDelete (deletingStore [cleanupJob [completeCondition]]) deletingCluster)))))
   \<and> GetJob (deletingStore [cleanupJob [completeCondition]]) (cleanupJobName deletingCluster)
       = Inr (cleanupJob [completeCondition])
   \<and> jobIsFinished (cleanupJob [completeCondition]) = (True, None)"
proof -
  note a = C3_deploy_work_item_deleted_first[OF eval_delete_running]
  note b = C3_deploy_work_item_deleted_first[OF eval_delete_gone]
  note c = C3_deploy_work_item_deleted_first[OF eval_delete_cleaned]
  have 1: "JobRef (Status deletingCluster) = Some (EggoNamespaceName, ''c1-create-job'')"
    by (simp add: all_defs)
  have 2: "GetJob (deletingStore [deployJob []]) (EggoNamespaceName, ''c1-create-job'')
       = Inr (deployJob [])"
    by (simp add: all_defs)
  have 3: "calls (deletingStore [deployJob []]) = []"
    by (simp add: all_defs)
  have 4: "jobIsFinished (deployJob []) = (False, None)" "jKey (deployJob []) = (EggoNamespaceName, ''c1-create-job'')"
    by (simp_all add: all_defs)
  from a 1 2 have "calls ((deletingStore [deployJob []])
          \<lparr>calls := [DeleteJob (EggoNamespaceName, ''c1-create-job'') (Some 60)], jobs := []\<rparr>)
     = calls (deletingStore [deployJob []]) @ [DeleteJob (jKey (deployJob []))
                                      (if fst (jobIsFinished (deployJob [])) then None else Some 60)]"
    by blast
  then have A: "calls (snd (snd (snd (reconcileDelete (deletingStore [deployJob []]) deletingCluster))))
       = [DeleteJob (EggoNamespaceName, ''c1-create-job'') (Some 60)]"
    using 3 4 by (simp add: eval_delete_running)
  have B1: "CreateJob ((cleanupJob [])\<lparr>j_creationTimestamp := 0\<rparr>)
       \<in> set (calls (snd (snd (snd (reconcileDelete (deletingStore []) deletingCluster)))))"
    by (simp add: eval_delete_gone)
  have B0: "CreateJob ((cleanupJob [])\<lparr>j_creationTimestamp := 0\<rparr>) \<notin> set (calls (deletingStore []))"
    by (simp add: all_defs)
  from b B1 B0 1 have B: "GetJob (deletingStore []) (EggoNamespaceName, ''c1-create-job'') = Inl NotFound"
    by (simp add: eval_delete_gone)
  have C1: "HasCluster (Status deletingCluster)"
    by (simp add: all_defs)
  have C2: "\<not> HasCluster (Status (fst (snd (snd
         (reconcileDelete (deletingStore [cleanupJob [completeCondition]]) deletingCluster)))))"
    by (simp add: eval_delete_cleaned all_defs)
  from c C1 C2 have "\<exists>job. GetJob (deletingStore [cleanupJob [completeCondition]])
        (cleanupJobName deletingCluster) = Inr job \<and> jobIsFinished job = (True, None)"
    by (simp add: eval_delete_cleaned)
  moreover have "GetJob (deletingStore [cleanupJob [completeCondition]])
        (cleanupJobName deletingCluster) = Inr (cleanupJob [completeCondition])"
    by (simp add: all_defs)
  ultimately have C3: "GetJob (deletingStore [cleanupJob [completeCondition]])
        (cleanupJobName deletingCluster) = Inr (cleanupJob [completeCondition])
      \<and> jobIsFinished (cleanupJob [completeCondition]) = (True, None)"
    by auto
  show ?thesis using 1 2 A B1 B C1 C2 C3 by simp
qed

text \<open>
  Claim C8, the code at the last step. The Cluster is marked for deletion, nothing but
  the credential and the volume reference is left in its status. \<open>reconcileDelete\<close>
  clears the volume reference (and the binding reference, again), sets \<open>Deleted\<close> and
  writes the status: the credential reference is still set, in the Cluster returned and
  in the stored one.
\<close>

theorem C8_credential_reference_kept:
  "MachineLoginSecretRef (Status teardownCluster) = Some (EggoNamespaceName, ''login'')
   \<and> JobRef (Status teardownCluster) = None \<and> \<not> HasCluster (Status teardownCluster)
   \<and> MachineBindingRef (Status teardownCluster) = None \<and> ConfigRef (Status teardownCluster) = None
   \<and> reconcileDelete teardownStore teardownCluster
     = (Result0, None,
        teardownCluster\<lparr>Status := (Status teardownCluster)\<lparr>
          PackagePersistentVolumeClaimRef := None, Deleted := True\<rparr>\<rparr>,
        teardownStore\<lparr>calls := [UpdateClusterStatus (teardownCluster\<lparr>Status :=
            (Status teardownCluster)\<lparr>PackagePersistentVolumeClaimRef := None, Deleted := True\<rparr>\<rparr>)],
          clusters := [teardownCluster\<lparr>Status := (Status teardownCluster)\<lparr>
            PackagePersistentVolumeClaimRef := None, Deleted := True\<rparr>\<rparr>]\<rparr>)
   \<and> MachineLoginSecretRef ((Status teardownCluster)\<lparr>
          PackagePersistentVolumeClaimRef := None, Deleted := True\<rparr>)
       = Some (EggoNamespaceName, ''login'')"
  using eval_teardown by (simp add: all_defs)

text \<open>
  \<open>reconcileDelete\<close> never returns an error, so Reconcile removes the finalizer after
  every pass of the deletion path: here after the first one, which only deleted the
  running deploy Job, while \<open>Deleted\<close> is still false.
\<close>

theorem finalizer_removed_on_first_pass:
  "Reconcile (deletingStore [deployJob []]) (cKey deletingCluster)
     = (\<lparr>Requeue = False, RequeueAfter = Second * 5\<rparr>, None,
        (deletingStore [deployJob []])
          \<lparr>calls := [DeleteJob (EggoNamespaceName, ''c1-create-job'') (Some 60),
                     UpdateCluster (deletingCluster\<lparr>Finalizers := []\<rparr>)],
           jobs := [], clusters := [deletingCluster\<lparr>Finalizers := []\<rparr>]\<rparr>)
   \<and> \<not> Deleted (Status deletingCluster)"
  using eval_Reconcile_running by (simp add: all_defs)

section \<open>A request for a Cluster that does not exist\<close>

text \<open>
  Claim C10. When no Cluster of the store has the requested key and the Get is served,
  Reconcile returns the empty result and no error, and the store is unchanged: no
  request that changes it has been made.
\<close>

theorem C10_missing_cluster:
  assumes "\<forall>c \<in> set (clusters r). cKey c \<noteq> req"
      and "\<not> fault r (ReqGet KCluster req)"
  shows "Reconcile r req = (Result0, None, r)"
proof -
  have "find (\<lambda>x. cKey x = req) (clusters r) = None"
    using assms(1) by (simp add: find_None_iff)
  then have "GetCluster r req = Inl NotFound"
    using assms(2) by (simp add: GetCluster_def getObj_def lookupObj_def)
  then show ?thesis
    by (simp add: Reconcile_def IgnoreNotFound_def)
qed

text \<open>
  Claim C10 on the empty store: it holds no Cluster, the Get is served, and Reconcile
  returns the empty result, no error, and the store as it was.
\<close>

theorem C10_missing_cluster_witness:
  "clusters emptyStore = []
   \<and> \<not> fault emptyStore (ReqGet KCluster (''default'', ''c1''))
   \<and> Reconcile emptyStore (''default'', ''c1'') = (Result0, None, emptyStore)"
proof -
  have e: "clusters emptyStore = []"
    by (simp add: emptyStore_def)
  then have a: "\<forall>c \<in> set (clusters emptyStore). cKey c \<noteq> (''default'', ''c1'')"
    by simp
  have b: "\<not> fault emptyStore (ReqGet KCluster (''default'', ''c1''))"
    by (simp add: emptyStore_def)
  show ?thesis using e b C10_missing_cluster[OF a b] by simp
qed

end
